theory Spec2Isabelle
  imports Complex_Main
begin

section \<open>Cafe point-of-sale backend: data model\<close>

text \<open>
  The backend (\<^verbatim>\<open>main.py\<close>, \<^verbatim>\<open>schemas.py\<close>) is a set of HTTP handlers over a MongoDB
  document store. Each handler is embedded as a function from the store (and the request)
  to the store after the call and the handler's outcome: \<open>Inr\<close> the JSON answer,
  \<open>Inl\<close> the exception that left the handler. The store is returned in both cases,
  because a handler can raise after it has already written.

  Python floats are idealised as exact rationals (\<open>rat\<close>): \<open>*\<close> and \<open>+\<close> are exact and
  \<open>round(x, 2)\<close> is \<open>round2\<close>, rounding half to even at two decimals. The idealisation
  agrees with the code where the float operations are exact (a product with zero, a sum
  with zero, a comparison with zero); binary rounding of products and sums is not
  modelled, so nothing about the rounded cents of a non-zero tax is drawn from it.
\<close>

subsection \<open>Exceptions\<close>

datatype failure =
    HTTPException nat string  \<comment> \<open>\<^verbatim>\<open>HTTPException(status_code, detail)\<close>\<close>
  | Unhandled string          \<comment> \<open>any other exception (answered with status 500), by class name\<close>

subsection \<open>Schemas (\<^verbatim>\<open>schemas.py\<close>)\<close>

datatype role = admin | cashier | chef | manager
datatype station_status = available | in_use | offline | maintenance
datatype session_status = active | ended | paused
datatype order_status = pending | preparing | ready | served | canceled
datatype payment_method = cash | upi | card
datatype payment_status = initiated | success | failed | refunded

record user =
  u_email :: string
  u_password_hash :: string
  u_name :: string
  u_role :: role
  u_cafe_id :: "string option"
  u_is_active :: bool

record station =
  st_cafe_id :: string
  st_name :: string
  st_status :: station_status
  st_current_session_id :: "string option"

record session =
  se_cafe_id :: string
  se_station_id :: string
  se_user_id :: "string option"
  se_customer_name :: "string option"
  se_status :: session_status
  se_started_at :: "string option"
  se_ended_at :: "string option"
  se_duration_minutes :: "int option"
  se_total_amount :: "rat option"

record menuitem =
  mi_cafe_id :: string
  mi_name :: string
  mi_category :: "string option"
  mi_price :: rat
  mi_sku :: "string option"
  mi_is_active :: bool

record orderitem =
  oi_item_id :: string
  oi_name :: string
  oi_qty :: int
  oi_unit_price :: rat
  oi_total_price :: rat

record order_rec =
  o_cafe_id :: string
  o_session_id :: "string option"
  o_station_id :: "string option"
  o_status :: order_status
  o_items :: "orderitem list"
  o_subtotal :: rat
  o_tax :: rat
  o_total :: rat
  o_notes :: "string option"

record payment =
  p_cafe_id :: string
  p_order_id :: "string option"
  p_session_id :: "string option"
  p_amount :: rat
  p_method :: payment_method
  p_status :: payment_status
  p_idempotency_key :: "string option"
  p_reference :: "string option"

record settings =
  s_cafe_id :: string
  s_currency :: string
  s_tax_rate :: rat
  s_service_charge_rate :: rat

text \<open>The \<^verbatim>\<open>payload\<close> dictionary of an audit entry: a model dump or a status update.\<close>

datatype payload =
    dump_user user
  | dump_station station
  | dump_session session
  | dump_menuitem menuitem
  | dump_order order_rec
  | dump_payment payment
  | dump_settings settings
  | set_station_status station_status
  | set_session_status session_status
  | set_order_status order_status

record auditlog =
  a_user_id :: "string option"
  a_cafe_id :: "string option"
  a_action :: string
  a_table :: string
  a_record_id :: "string option"
  a_payload :: payload

text \<open>
  The constraints of the schemas that a handler can violate when it builds a model itself
  (\<^verbatim>\<open>conint(gt=0)\<close>, \<^verbatim>\<open>confloat(ge=0)\<close>): pydantic raises \<^verbatim>\<open>ValidationError\<close>, which no
  handler catches.
\<close>

definition OrderItem :: "orderitem \<Rightarrow> failure + orderitem" where
  "OrderItem x =
     (if 0 < oi_qty x \<and> 0 \<le> oi_unit_price x \<and> 0 \<le> oi_total_price x then Inr x
      else Inl (Unhandled ''ValidationError''))"

definition Order :: "order_rec \<Rightarrow> failure + order_rec" where
  "Order x =
     (if 0 \<le> o_subtotal x \<and> 0 \<le> o_tax x \<and> 0 \<le> o_total x then Inr x
      else Inl (Unhandled ''ValidationError''))"

definition Payment :: "payment \<Rightarrow> failure + payment" where
  "Payment x = (if 0 \<le> p_amount x then Inr x else Inl (Unhandled ''ValidationError''))"

definition MenuItem :: "menuitem \<Rightarrow> failure + menuitem" where
  "MenuItem x = (if 0 \<le> mi_price x then Inr x else Inl (Unhandled ''ValidationError''))"

subsection \<open>Request bodies\<close>

record RegisterRequest =
  rr_email :: string
  rr_name :: string
  rr_password :: string
  rr_role :: role

record StartSessionRequest =
  ss_cafe_id :: string
  ss_station_id :: string
  ss_customer_name :: "string option"

record EndSessionRequest =
  es_session_id :: string

text \<open>
  A line of \<^verbatim>\<open>CreateOrderRequest.items\<close> is a dictionary. The model keeps the keys the
  handler reads, \<^verbatim>\<open>item_id\<close> (a string) and \<^verbatim>\<open>qty\<close> (an integer, absent: \<open>None\<close>), and
  a \<^verbatim>\<open>price\<close> a client may send along, which the handler never reads.
\<close>

record order_line =
  ol_item_id :: string
  ol_qty :: "int option"
  ol_price :: "rat option"

record CreateOrderRequest =
  co_cafe_id :: string
  co_session_id :: "string option"
  co_station_id :: "string option"
  co_items :: "order_line list"
  co_notes :: "string option"

record UpdateOrderStatusRequest =
  uo_order_id :: string
  uo_status :: order_status

record CheckoutRequest =
  ck_cafe_id :: string
  ck_session_id :: "string option"
  ck_order_id :: "string option"
  ck_amount :: rat
  ck_method :: payment_method
  ck_idempotency_key :: string

record CreateMenuItemRequest =
  cm_cafe_id :: string
  cm_name :: string
  cm_price :: rat
  cm_category :: "string option"
  cm_sku :: "string option"

record UpdateStationStatusRequest =
  us_station_id :: string
  us_status :: station_status

subsection \<open>The document store\<close>

text \<open>
  A stored document is the model's fields with the identifier and the timestamps the store
  adds. An \<^verbatim>\<open>ObjectId\<close> is represented by the text \<^verbatim>\<open>str\<close> gives for it: 24 lower-case
  hexadecimal digits. A collection is the list of its documents in insertion order, so
  that \<^verbatim>\<open>find_one\<close> and \<^verbatim>\<open>update_one\<close> take the first match.
\<close>

record 'a document =
  doc_id :: string
  created_at :: string
  updated_at :: "string option"
  body :: 'a

record db =
  db_user :: "user document list"
  db_station :: "station document list"
  db_session :: "session document list"
  db_menuitem :: "menuitem document list"
  db_order :: "order_rec document list"
  db_payment :: "payment document list"
  db_settings :: "settings document list"
  db_auditlog :: "auditlog list"

text \<open>
  What a call takes from outside the store: the clock, the identifier the driver generates
  for the document the call inserts (no handler inserts more than one document besides
  audit entries), and whether the store accepts a given audit entry.
\<close>

record env =
  now :: string
  new_id :: string
  audit_ok :: "auditlog \<Rightarrow> bool"

definition find_one :: "('a \<Rightarrow> bool) \<Rightarrow> 'a list \<Rightarrow> 'a option" where
  "find_one q coll = List.find q coll"

fun update_one :: "('a \<Rightarrow> bool) \<Rightarrow> ('a \<Rightarrow> 'a) \<Rightarrow> 'a list \<Rightarrow> 'a list" where
  "update_one q f [] = []"
| "update_one q f (x # xs) = (if q x then f x # xs else x # update_one q f xs)"

definition by_id :: "string \<Rightarrow> 'a document \<Rightarrow> bool" where
  "by_id i x = (doc_id x = i)"

text \<open>
  Modelled from the spec: \<^verbatim>\<open>create_document\<close> of the repository's \<^verbatim>\<open>database\<close> module,
  which is not among the sources. "\<^verbatim>\<open>create(collection, record) \<rightarrow> id\<close>"; "Records are
  schemaless maps augmented with a generated identifier and a creation timestamp set by
  the store, not the caller."
\<close>

definition create_document :: "env \<Rightarrow> 'a \<Rightarrow> 'a document list \<Rightarrow> 'a document list \<times> string" where
  "create_document e x coll =
     (coll @ [\<lparr>doc_id = new_id e, created_at = now e, updated_at = None, body = x\<rparr>], new_id e)"

subsection \<open>Helpers (\<^verbatim>\<open>main.py\<close>)\<close>

definition hexdigit :: "char \<Rightarrow> bool" where
  "hexdigit c = (c \<in> set ''0123456789abcdefABCDEF'')"

definition lower :: "char \<Rightarrow> char" where
  "lower c =
     (if c = CHR ''A'' then CHR ''a'' else if c = CHR ''B'' then CHR ''b''
      else if c = CHR ''C'' then CHR ''c'' else if c = CHR ''D'' then CHR ''d''
      else if c = CHR ''E'' then CHR ''e'' else if c = CHR ''F'' then CHR ''f'' else c)"

text \<open>
  \<^verbatim>\<open>oid\<close>: \<^verbatim>\<open>ObjectId(id_str)\<close> accepts a text of 24 hexadecimal digits (the library's
  documented contract for a string) and raises on any other; \<^verbatim>\<open>oid\<close> turns that into
  status 400. Upper-case digits are accepted and denote the same id as lower-case ones.
\<close>

definition oid :: "string \<Rightarrow> failure + string" where
  "oid id_str =
     (if length id_str = 24 \<and> list_all hexdigit id_str then Inr (map lower id_str)
      else Inl (HTTPException 400 ''Invalid ID''))"

definition now_iso :: "env \<Rightarrow> string" where
  "now_iso e = now e"

text \<open>
  \<^verbatim>\<open>audit\<close>: the write is inside \<^verbatim>\<open>try\<close> / \<^verbatim>\<open>except Exception: pass\<close>, so a refused write
  leaves the store as it was and nothing is raised. Identifiers and timestamps of audit
  documents are never read and are left out.
\<close>

definition audit ::
  "env \<Rightarrow> string \<Rightarrow> string \<Rightarrow> string option \<Rightarrow> payload \<Rightarrow> string option \<Rightarrow> string option \<Rightarrow> db \<Rightarrow> db"
where
  "audit e action table record_id pl user_id cafe_id d =
     (let entry = \<lparr>a_user_id = user_id, a_cafe_id = cafe_id, a_action = action,
                   a_table = table, a_record_id = record_id, a_payload = pl\<rparr>
      in if audit_ok e entry then d\<lparr>db_auditlog := db_auditlog d @ [entry]\<rparr> else d)"

section \<open>Handlers\<close>

subsection \<open>Sessions\<close>

definition start_session :: "env \<Rightarrow> db \<Rightarrow> StartSessionRequest \<Rightarrow> db \<times> (failure + string)" where
  "start_session e d req =
     (case oid (ss_station_id req) of
        Inl err \<Rightarrow> (d, Inl err)
      | Inr i \<Rightarrow>
          (case find_one (by_id i) (db_station d) of
             None \<Rightarrow> (d, Inl (HTTPException 404 ''Station not found''))
           | Some st \<Rightarrow>
               if st_status (body st) = in_use
               then (d, Inl (HTTPException 409 ''Station already in use''))
               else
                 let sess = \<lparr>se_cafe_id = ss_cafe_id req, se_station_id = ss_station_id req,
                             se_user_id = None, se_customer_name = ss_customer_name req,
                             se_status = active, se_started_at = Some (now_iso e),
                             se_ended_at = None, se_duration_minutes = None,
                             se_total_amount = Some 0\<rparr>;
                     (coll, sid) = create_document e sess (db_session d);
                     d1 = d\<lparr>db_session := coll\<rparr>;
                     d2 = d1\<lparr>db_station :=
                            update_one (by_id i)
                              (\<lambda>x. x\<lparr>body := (body x)\<lparr>st_status := in_use,
                                                        st_current_session_id := Some sid\<rparr>\<rparr>)
                              (db_station d1)\<rparr>;
                     d3 = audit e ''create'' ''session'' (Some sid) (dump_session sess) None
                            (Some (ss_cafe_id req)) d2
                 in (d3, Inr sid)))"

definition end_session :: "env \<Rightarrow> db \<Rightarrow> EndSessionRequest \<Rightarrow> db \<times> (failure + bool)" where
  "end_session e d req =
     (case oid (es_session_id req) of
        Inl err \<Rightarrow> (d, Inl err)
      | Inr i \<Rightarrow>
          (case find_one (by_id i) (db_session d) of
             None \<Rightarrow> (d, Inl (HTTPException 404 ''Session not found''))
           | Some sess \<Rightarrow>
               if se_status (body sess) = ended then (d, Inr True)
               else
                 let d1 = d\<lparr>db_session :=
                            update_one (by_id i)
                              (\<lambda>x. x\<lparr>body := (body x)\<lparr>se_status := ended,
                                                        se_ended_at := Some (now_iso e)\<rparr>\<rparr>)
                              (db_session d)\<rparr>
                 in (case oid (se_station_id (body sess)) of
                       Inl err \<Rightarrow> (d1, Inl err)
                     | Inr j \<Rightarrow>
                         let d2 = d1\<lparr>db_station :=
                                    update_one (by_id j)
                                      (\<lambda>x. x\<lparr>body := (body x)\<lparr>st_status := available,
                                                                st_current_session_id := None\<rparr>\<rparr>)
                                      (db_station d1)\<rparr>;
                             d3 = audit e ''update'' ''session'' (Some (es_session_id req))
                                    (set_session_status ended) None
                                    (Some (se_cafe_id (body sess))) d2
                         in (d3, Inr True))))"

subsection \<open>Users, stations and the menu\<close>

definition register :: "env \<Rightarrow> db \<Rightarrow> RegisterRequest \<Rightarrow> db \<times> (failure + string)" where
  "register e d req =
     (case find_one (\<lambda>x. u_email (body x) = rr_email req) (db_user d) of
        Some existing \<Rightarrow> (d, Inl (HTTPException 400 ''Email already registered''))
      | None \<Rightarrow>
          let usr = \<lparr>u_email = rr_email req, u_password_hash = rr_password req,
                     u_name = rr_name req, u_role = rr_role req, u_cafe_id = None,
                     u_is_active = True\<rparr>;
              (coll, uid) = create_document e usr (db_user d);
              d1 = d\<lparr>db_user := coll\<rparr>;
              d2 = audit e ''create'' ''user'' (Some uid) (dump_user usr) None None d1
          in (d2, Inr uid))"

definition create_station :: "env \<Rightarrow> db \<Rightarrow> station \<Rightarrow> db \<times> (failure + string)" where
  "create_station e d st =
     (let (coll, sid) = create_document e st (db_station d);
          d1 = d\<lparr>db_station := coll\<rparr>;
          d2 = audit e ''create'' ''station'' (Some sid) (dump_station st) None
                 (Some (st_cafe_id st)) d1
      in (d2, Inr sid))"

definition update_station_status ::
  "env \<Rightarrow> db \<Rightarrow> UpdateStationStatusRequest \<Rightarrow> db \<times> (failure + bool)"
where
  "update_station_status e d req =
     (case oid (us_station_id req) of
        Inl err \<Rightarrow> (d, Inl err)
      | Inr i \<Rightarrow>
          (case find_one (by_id i) (db_station d) of
             None \<Rightarrow> (d, Inl (HTTPException 404 ''Station not found''))
           | Some st \<Rightarrow>
               let d1 = d\<lparr>db_station :=
                          update_one (by_id i)
                            (\<lambda>x. x\<lparr>body := (body x)\<lparr>st_status := us_status req\<rparr>,
                                   updated_at := Some (now e)\<rparr>)
                            (db_station d)\<rparr>;
                   d2 = audit e ''update'' ''station'' (Some (us_station_id req))
                          (set_station_status (us_status req)) None
                          (Some (st_cafe_id (body st))) d1
               in (d2, Inr True)))"

definition create_menu_item ::
  "env \<Rightarrow> db \<Rightarrow> CreateMenuItemRequest \<Rightarrow> db \<times> (failure + string)"
where
  "create_menu_item e d req =
     (case MenuItem \<lparr>mi_cafe_id = cm_cafe_id req, mi_name = cm_name req,
                     mi_category = cm_category req, mi_price = cm_price req,
                     mi_sku = cm_sku req, mi_is_active = True\<rparr> of
        Inl err \<Rightarrow> (d, Inl err)
      | Inr mi \<Rightarrow>
          let (coll, mid) = create_document e mi (db_menuitem d);
              d1 = d\<lparr>db_menuitem := coll\<rparr>;
              d2 = audit e ''create'' ''menuitem'' (Some mid) (dump_menuitem mi) None
                     (Some (mi_cafe_id mi)) d1
          in (d2, Inr mid))"

subsection \<open>Orders\<close>

text \<open>\<^verbatim>\<open>round(x, 2)\<close>: the nearest multiple of 1/100, a tie going to the even one.\<close>

definition round_half_even :: "rat \<Rightarrow> int" where
  "round_half_even x =
     (let f = \<lfloor>x\<rfloor>; r = x - of_int f
      in if r < 1 / 2 then f else if 1 / 2 < r then f + 1
         else if even f then f else f + 1)"

definition round2 :: "rat \<Rightarrow> rat" where
  "round2 x = of_int (round_half_even (x * 100)) / 100"

text \<open>\<^verbatim>\<open>int(it.get("qty", 1))\<close>, for a line whose \<^verbatim>\<open>qty\<close>, if present, is an integer.\<close>

definition line_qty :: "order_line \<Rightarrow> int" where
  "line_qty it = (case ol_qty it of None \<Rightarrow> 1 | Some q \<Rightarrow> q)"

text \<open>
  The loop of \<^verbatim>\<open>create_order\<close> over \<^verbatim>\<open>req.items\<close>, with its two accumulators \<^verbatim>\<open>items\<close>
  and \<^verbatim>\<open>subtotal\<close>. The price is the stored one; the line's own \<open>ol_price\<close> is not read.
\<close>

fun for_items ::
  "menuitem document list \<Rightarrow> order_line list \<Rightarrow> orderitem list \<Rightarrow> rat \<Rightarrow>
   failure + (orderitem list \<times> rat)"
where
  "for_items menu [] items subtotal = Inr (items, subtotal)"
| "for_items menu (it # rest) items subtotal =
     (case oid (ol_item_id it) of
        Inl err \<Rightarrow> Inl err
      | Inr i \<Rightarrow>
          (case find_one (by_id i) menu of
             None \<Rightarrow> Inl (HTTPException 400 (''Invalid menu item: '' @ ol_item_id it))
           | Some item_doc \<Rightarrow>
               if \<not> mi_is_active (body item_doc)
               then Inl (HTTPException 400 (''Invalid menu item: '' @ ol_item_id it))
               else
                 let qty = line_qty it
                 in if qty \<le> 0 then Inl (HTTPException 400 ''Invalid quantity'')
                    else
                      let unit_price = mi_price (body item_doc);
                          line_total = unit_price * of_int qty
                      in (case OrderItem \<lparr>oi_item_id = doc_id item_doc,
                                           oi_name = mi_name (body item_doc), oi_qty = qty,
                                           oi_unit_price = unit_price,
                                           oi_total_price = line_total\<rparr> of
                            Inl err \<Rightarrow> Inl err
                          | Inr oi \<Rightarrow>
                              for_items menu rest (items @ [oi]) (subtotal + line_total))))"

definition create_order ::
  "env \<Rightarrow> db \<Rightarrow> CreateOrderRequest \<Rightarrow> db \<times> (failure + string \<times> rat)"
where
  "create_order e d req =
     (if co_items req = [] then (d, Inl (HTTPException 400 ''Order must have items''))
      else
        (case for_items (db_menuitem d) (co_items req) [] 0 of
           Inl err \<Rightarrow> (d, Inl err)
         | Inr (items, subtotal) \<Rightarrow>
             let tax_rate =
                   (case find_one (\<lambda>x. s_cafe_id (body x) = co_cafe_id req) (db_settings d) of
                      None \<Rightarrow> 0
                    | Some st \<Rightarrow> s_tax_rate (body st));
                 tax = round2 (subtotal * tax_rate);
                 total = round2 (subtotal + tax)
             in (case Order \<lparr>o_cafe_id = co_cafe_id req, o_session_id = co_session_id req,
                              o_station_id = co_station_id req, o_status = pending,
                              o_items = items, o_subtotal = subtotal, o_tax = tax,
                              o_total = total, o_notes = co_notes req\<rparr> of
                   Inl err \<Rightarrow> (d, Inl err)
                 | Inr ord \<Rightarrow>
                     let (coll, oid_new) = create_document e ord (db_order d);
                         d1 = d\<lparr>db_order := coll\<rparr>;
                         d2 = audit e ''create'' ''order'' (Some oid_new) (dump_order ord) None
                                (Some (co_cafe_id req)) d1
                     in (d2, Inr (oid_new, total)))))"

definition update_order_status ::
  "env \<Rightarrow> db \<Rightarrow> UpdateOrderStatusRequest \<Rightarrow> db \<times> (failure + bool)"
where
  "update_order_status e d req =
     (case oid (uo_order_id req) of
        Inl err \<Rightarrow> (d, Inl err)
      | Inr i \<Rightarrow>
          (case find_one (by_id i) (db_order d) of
             None \<Rightarrow> (d, Inl (HTTPException 404 ''Order not found''))
           | Some ord \<Rightarrow>
               let d1 = d\<lparr>db_order :=
                          update_one (by_id i)
                            (\<lambda>x. x\<lparr>body := (body x)\<lparr>o_status := uo_status req\<rparr>,
                                   updated_at := Some (now e)\<rparr>)
                            (db_order d)\<rparr>;
                   d2 = audit e ''update'' ''order'' (Some (uo_order_id req))
                          (set_order_status (uo_status req)) None
                          (Some (o_cafe_id (body ord))) d1
               in (d2, Inr True)))"

subsection \<open>Checkout\<close>

text \<open>
  The block \<^verbatim>\<open>if req.session_id: ...\<close> of \<^verbatim>\<open>checkout\<close>. An empty text is falsy and skips
  the block, as an absent id does.
\<close>

definition checkout_session :: "env \<Rightarrow> db \<Rightarrow> string option \<Rightarrow> db \<times> (failure + unit)" where
  "checkout_session e d session_id =
     (case session_id of
        None \<Rightarrow> (d, Inr ())
      | Some s \<Rightarrow>
          if s = [] then (d, Inr ())
          else
            (case oid s of
               Inl err \<Rightarrow> (d, Inl err)
             | Inr i \<Rightarrow>
                 (case find_one (by_id i) (db_session d) of
                    None \<Rightarrow> (d, Inr ())
                  | Some sess \<Rightarrow>
                      if se_status (body sess) = ended then (d, Inr ())
                      else
                        let d1 = d\<lparr>db_session :=
                                   update_one (by_id i)
                                     (\<lambda>x. x\<lparr>body := (body x)\<lparr>se_status := ended,
                                                               se_ended_at := Some (now_iso e)\<rparr>\<rparr>)
                                     (db_session d)\<rparr>
                        in (case oid (se_station_id (body sess)) of
                              Inl err \<Rightarrow> (d1, Inl err)
                            | Inr j \<Rightarrow>
                                let d2 = d1\<lparr>db_station :=
                                           update_one (by_id j)
                                             (\<lambda>x. x\<lparr>body := (body x)
                                                      \<lparr>st_status := available,
                                                       st_current_session_id := None\<rparr>\<rparr>)
                                             (db_station d1)\<rparr>;
                                    d3 = audit e ''update'' ''session'' (Some s)
                                           (set_session_status ended) None
                                           (Some (se_cafe_id (body sess))) d2
                                in (d3, Inr ())))))"

text \<open>The block \<^verbatim>\<open>if req.order_id: ...\<close> of \<^verbatim>\<open>checkout\<close>.\<close>

definition checkout_order :: "env \<Rightarrow> db \<Rightarrow> string option \<Rightarrow> db \<times> (failure + unit)" where
  "checkout_order e d order_id =
     (case order_id of
        None \<Rightarrow> (d, Inr ())
      | Some s \<Rightarrow>
          if s = [] then (d, Inr ())
          else
            (case oid s of
               Inl err \<Rightarrow> (d, Inl err)
             | Inr i \<Rightarrow>
                 let d1 = d\<lparr>db_order :=
                            update_one (by_id i)
                              (\<lambda>x. x\<lparr>body := (body x)\<lparr>o_status := served\<rparr>\<rparr>)
                              (db_order d)\<rparr>;
                     d2 = audit e ''update'' ''order'' (Some s) (set_order_status served)
                            None None d1
                 in (d2, Inr ())))"

definition checkout ::
  "env \<Rightarrow> db \<Rightarrow> CheckoutRequest \<Rightarrow> db \<times> (failure + string \<times> payment_status)"
where
  "checkout e d req =
     (case find_one (\<lambda>x. p_idempotency_key (body x) = Some (ck_idempotency_key req) \<and>
                          p_status (body x) = success) (db_payment d) of
        Some existing \<Rightarrow> (d, Inr (doc_id existing, success))
      | None \<Rightarrow>
          (case Payment \<lparr>p_cafe_id = ck_cafe_id req, p_order_id = ck_order_id req,
                          p_session_id = ck_session_id req, p_amount = ck_amount req,
                          p_method = ck_method req, p_status = success,
                          p_idempotency_key = Some (ck_idempotency_key req),
                          p_reference = None\<rparr> of
             Inl err \<Rightarrow> (d, Inl err)
           | Inr pay \<Rightarrow>
               let (coll, pid) = create_document e pay (db_payment d);
                   d1 = d\<lparr>db_payment := coll\<rparr>
               in (case checkout_session e d1 (ck_session_id req) of
                     (d2, Inl err) \<Rightarrow> (d2, Inl err)
                   | (d2, Inr u) \<Rightarrow>
                       (case checkout_order e d2 (ck_order_id req) of
                          (d3, Inl err) \<Rightarrow> (d3, Inl err)
                        | (d3, Inr v) \<Rightarrow>
                            let d4 = audit e ''create'' ''payment'' (Some pid)
                                       (dump_payment pay) None (Some (ck_cafe_id req)) d3
                            in (d4, Inr (pid, success))))))"

subsection \<open>Settings\<close>

text \<open>
  \<^verbatim>\<open>get_settings\<close> answers with the settings fields; the \<^verbatim>\<open>_id\<close> and timestamp entries
  of the answer are left out of the model.
\<close>

definition get_settings :: "env \<Rightarrow> db \<Rightarrow> string \<Rightarrow> db \<times> settings" where
  "get_settings e d cafe_id =
     (case find_one (\<lambda>x. s_cafe_id (body x) = cafe_id) (db_settings d) of
        Some st \<Rightarrow> (d, body st)
      | None \<Rightarrow>
          let s = \<lparr>s_cafe_id = cafe_id, s_currency = ''INR'', s_tax_rate = 5 / 100,
                   s_service_charge_rate = 0\<rparr>;
              (coll, sid) = create_document e s (db_settings d)
          in (d\<lparr>db_settings := coll\<rparr>, s))"

definition update_settings :: "env \<Rightarrow> db \<Rightarrow> settings \<Rightarrow> db \<times> (failure + bool)" where
  "update_settings e d s =
     (let (d1, sid) =
            (case find_one (\<lambda>x. s_cafe_id (body x) = s_cafe_id s) (db_settings d) of
               Some existing \<Rightarrow>
                 (d\<lparr>db_settings :=
                      update_one (by_id (doc_id existing)) (\<lambda>x. x\<lparr>body := s\<rparr>)
                        (db_settings d)\<rparr>,
                  doc_id existing)
             | None \<Rightarrow>
                 (let (coll, i) = create_document e s (db_settings d)
                  in (d\<lparr>db_settings := coll\<rparr>, i)));
          d2 = audit e ''update'' ''settings'' (Some sid) (dump_settings s) None
                 (Some (s_cafe_id s)) d1
      in (d2, Inr True))"

section \<open>Notions used in the statements\<close>





text \<open>
  An optional reference of a checkout request that \<^verbatim>\<open>oid\<close> does not reject: absent,
  empty, or the text of an ObjectId. For the session reference, the session it names (if
  it is stored and not ended) must itself hold a station id that \<^verbatim>\<open>oid\<close> accepts.
\<close>

definition ref_ok :: "string option \<Rightarrow> bool" where
  "ref_ok r = (case r of None \<Rightarrow> True | Some s \<Rightarrow> s = [] \<or> \<not> isl (oid s))"

definition session_ref_ok :: "db \<Rightarrow> string option \<Rightarrow> bool" where
  "session_ref_ok d r =
     (case r of
        None \<Rightarrow> True
      | Some s \<Rightarrow>
          s = [] \<or>
          (case oid s of
             Inl err \<Rightarrow> False
           | Inr i \<Rightarrow>
               (case find_one (by_id i) (db_session d) of
                  None \<Rightarrow> True
                | Some sess \<Rightarrow>
                    se_status (body sess) = ended \<or> \<not> isl (oid (se_station_id (body sess))))))"

text \<open>The store without its audit log: the seven collections the handlers read.\<close>

definition without_audit :: "db \<Rightarrow> db" where
  "without_audit d = d\<lparr>db_auditlog := []\<rparr>"

section \<open>A small store, for evaluating the handlers\<close>

definition env0 :: env where
  "env0 = \<lparr>now = ''2024-05-01T10:00:00+00:00'', new_id = ''64b000000000000000000f01'', audit_ok = (\<lambda>_. True)\<rparr>"

definition env1 :: env where
  "env1 = \<lparr>now = ''2024-05-01T11:30:00+00:00'', new_id = ''64b000000000000000000f02'', audit_ok = (\<lambda>_. False)\<rparr>"

definition stamp :: "string \<Rightarrow> 'a \<Rightarrow> 'a document" where
  "stamp i x = \<lparr>doc_id = i, created_at = ''2024-05-01T09:00:00+00:00'', updated_at = None,
               body = x\<rparr>"

definition demo_stations :: "station document list" where
  "demo_stations =
     [stamp ''64b000000000000000000a01'' \<lparr>st_cafe_id = ''cafe1'', st_name = ''PS5-1'', st_status = available,
                st_current_session_id = None\<rparr>,
      stamp ''64b000000000000000000a02'' \<lparr>st_cafe_id = ''cafe1'', st_name = ''PS5-2'', st_status = in_use,
                st_current_session_id = Some ''64b000000000000000000b01''\<rparr>,
      stamp ''64b000000000000000000a03'' \<lparr>st_cafe_id = ''cafe1'', st_name = ''PC-1'', st_status = offline,
                st_current_session_id = None\<rparr>,
      stamp ''64b000000000000000000a04'' \<lparr>st_cafe_id = ''cafe1'', st_name = ''PC-2'', st_status = maintenance,
                st_current_session_id = None\<rparr>]"

definition demo_sessions :: "session document list" where
  "demo_sessions =
     [stamp ''64b000000000000000000b01'' \<lparr>se_cafe_id = ''cafe1'', se_station_id = ''64b000000000000000000a02'', se_user_id = None,
                 se_customer_name = Some ''Walk-in'', se_status = active,
                 se_started_at = Some ''2024-05-01T09:00:00+00:00'', se_ended_at = None,
                 se_duration_minutes = None, se_total_amount = Some 0\<rparr>,
      stamp ''64b000000000000000000b02'' \<lparr>se_cafe_id = ''cafe1'', se_station_id = ''64b000000000000000000a01'', se_user_id = None,
                 se_customer_name = Some ''Asha'', se_status = ended,
                 se_started_at = Some ''2024-05-01T08:00:00+00:00'',
                 se_ended_at = Some ''2024-05-01T08:45:00+00:00'',
                 se_duration_minutes = None, se_total_amount = Some 0\<rparr>]"

definition demo_menu :: "menuitem document list" where
  "demo_menu =
     [stamp ''64b000000000000000000c01'' \<lparr>mi_cafe_id = ''cafe1'', mi_name = ''Latte'', mi_category = None,
                mi_price = 100, mi_sku = None, mi_is_active = True\<rparr>,
      stamp ''64b000000000000000000c02'' \<lparr>mi_cafe_id = ''cafe1'', mi_name = ''Cake'', mi_category = None,
                mi_price = 50, mi_sku = None, mi_is_active = True\<rparr>,
      stamp ''64b000000000000000000c03'' \<lparr>mi_cafe_id = ''cafe1'', mi_name = ''Toast'', mi_category = None,
                mi_price = 30, mi_sku = None, mi_is_active = False\<rparr>]"

definition demo_orders :: "order_rec document list" where
  "demo_orders =
     [stamp ''64b000000000000000000d01'' \<lparr>o_cafe_id = ''cafe1'', o_session_id = Some ''64b000000000000000000b01'', o_station_id = Some ''64b000000000000000000a02'',
                o_status = pending,
                o_items = [\<lparr>oi_item_id = ''64b000000000000000000c01'', oi_name = ''Latte'', oi_qty = 1,
                            oi_unit_price = 100, oi_total_price = 100\<rparr>],
                o_subtotal = 100, o_tax = 0, o_total = 100, o_notes = None\<rparr>]"

definition demo_payments :: "payment document list" where
  "demo_payments =
     [stamp ''64b000000000000000000e01'' \<lparr>p_cafe_id = ''cafe1'', p_order_id = None, p_session_id = Some ''64b000000000000000000b02'',
                p_amount = 80, p_method = cash, p_status = success,
                p_idempotency_key = Some ''key-1'', p_reference = None\<rparr>]"

definition demo :: db where
  "demo = \<lparr>db_user = [], db_station = demo_stations, db_session = demo_sessions,
           db_menuitem = demo_menu, db_order = demo_orders, db_payment = demo_payments,
           db_settings = [], db_auditlog = []\<rparr>"

definition demo_taxed :: db where
  "demo_taxed =
     demo\<lparr>db_settings :=
            [stamp ''64b000000000000000000901'' \<lparr>s_cafe_id = ''cafe1'', s_currency = ''INR'', s_tax_rate = 5 / 100,
                        s_service_charge_rate = 0\<rparr>]\<rparr>"

lemmas demo_defs =
  env0_def env1_def stamp_def demo_stations_def demo_sessions_def demo_menu_def
  demo_orders_def demo_payments_def demo_def demo_taxed_def

section \<open>Properties\<close>

subsection \<open>The store\<close>

lemma find_one_append:
  "find_one q (xs @ [y]) =
     (case find_one q xs of Some x \<Rightarrow> Some x | None \<Rightarrow> if q y then Some y else None)"
  by (induction xs) (auto simp: find_one_def)

lemma find_one_update_one:
  "(\<And>x. q x \<Longrightarrow> q (f x)) \<Longrightarrow> find_one q (update_one q f xs) = map_option f (find_one q xs)"
  by (induction xs) (auto simp: find_one_def)

lemma find_one_Some: "find_one q xs = Some x \<Longrightarrow> x \<in> set xs \<and> q x"
  unfolding find_one_def by (auto simp: find_Some_iff)

lemma find_one_None: "find_one q xs = None \<longleftrightarrow> (\<forall>x\<in>set xs. \<not> q x)"
  unfolding find_one_def by (auto simp: find_None_iff)

lemma length_update_one: "length (update_one q f xs) = length xs"
  by (induction xs) auto

lemma by_id_body [simp]: "by_id i (x\<lparr>body := b\<rparr>) = by_id i x"
  by (simp add: by_id_def)

lemma by_id_updated_at [simp]: "by_id i (x\<lparr>updated_at := b\<rparr>) = by_id i x"
  by (simp add: by_id_def)

lemma audit_data [simp]:
  "db_user (audit e a t r p u c d) = db_user d"
  "db_station (audit e a t r p u c d) = db_station d"
  "db_session (audit e a t r p u c d) = db_session d"
  "db_menuitem (audit e a t r p u c d) = db_menuitem d"
  "db_order (audit e a t r p u c d) = db_order d"
  "db_payment (audit e a t r p u c d) = db_payment d"
  "db_settings (audit e a t r p u c d) = db_settings d"
  by (simp_all add: audit_def Let_def)

lemma oid_Inl: "oid s = Inl err \<Longrightarrow> err = HTTPException 400 ''Invalid ID''"
  by (auto simp: oid_def split: if_splits)

subsection \<open>Sessions\<close>

lemma start_session_free:
  assumes "oid (ss_station_id req) = Inr i"
    and "find_one (by_id i) (db_station d) = Some st"
    and "st_status (body st) \<noteq> in_use"
  shows "\<exists>d'. start_session e d req = (d', Inr (new_id e)) \<and>
           db_session d' = db_session d @
             [\<lparr>doc_id = new_id e, created_at = now e, updated_at = None,
               body = \<lparr>se_cafe_id = ss_cafe_id req, se_station_id = ss_station_id req,
                       se_user_id = None, se_customer_name = ss_customer_name req,
                       se_status = active, se_started_at = Some (now e),
                       se_ended_at = None, se_duration_minutes = None,
                       se_total_amount = Some 0\<rparr>\<rparr>] \<and>
           find_one (by_id i) (db_station d') =
             Some (st\<lparr>body := (body st)\<lparr>st_status := in_use,
                                         st_current_session_id := Some (new_id e)\<rparr>\<rparr>)"
  using assms
  by (simp add: start_session_def create_document_def now_iso_def Let_def find_one_update_one)

text \<open>
  C3 (as amended). \<^verbatim>\<open>start_session\<close> answers 400 "Invalid ID" when the station id is not
  the text of an ObjectId, 404 when it is one and no station has it, 409 when the station
  found is in use; when the station found is available the call succeeds, answers the id
  of the session it inserts (status active, started now), and leaves the station in use
  with that session as its current one.
\<close>

theorem start_session_outcomes:
  "(oid (ss_station_id req) = Inl err \<longrightarrow>
      start_session e d req = (d, Inl (HTTPException 400 ''Invalid ID''))) \<and>
   (oid (ss_station_id req) = Inr i \<and> find_one (by_id i) (db_station d) = None \<longrightarrow>
      start_session e d req = (d, Inl (HTTPException 404 ''Station not found''))) \<and>
   (oid (ss_station_id req) = Inr i \<and> find_one (by_id i) (db_station d) = Some st \<and>
    st_status (body st) = in_use \<longrightarrow>
      start_session e d req = (d, Inl (HTTPException 409 ''Station already in use''))) \<and>
   (oid (ss_station_id req) = Inr i \<and> find_one (by_id i) (db_station d) = Some st \<and>
    st_status (body st) = available \<longrightarrow>
      (\<exists>d'. start_session e d req = (d', Inr (new_id e)) \<and>
         db_session d' = db_session d @
           [\<lparr>doc_id = new_id e, created_at = now e, updated_at = None,
             body = \<lparr>se_cafe_id = ss_cafe_id req, se_station_id = ss_station_id req,
                     se_user_id = None, se_customer_name = ss_customer_name req,
                     se_status = active, se_started_at = Some (now e),
                     se_ended_at = None, se_duration_minutes = None,
                     se_total_amount = Some 0\<rparr>\<rparr>] \<and>
         find_one (by_id i) (db_station d') =
           Some (st\<lparr>body := (body st)\<lparr>st_status := in_use,
                                       st_current_session_id := Some (new_id e)\<rparr>\<rparr>)))"
proof (intro conjI impI)
  assume "oid (ss_station_id req) = Inl err"
  then show "start_session e d req = (d, Inl (HTTPException 400 ''Invalid ID''))"
    using oid_Inl [of "ss_station_id req" err] by (simp add: start_session_def)
next
  assume "oid (ss_station_id req) = Inr i \<and> find_one (by_id i) (db_station d) = None"
  then show "start_session e d req = (d, Inl (HTTPException 404 ''Station not found''))"
    by (simp add: start_session_def)
next
  assume "oid (ss_station_id req) = Inr i \<and> find_one (by_id i) (db_station d) = Some st \<and>
    st_status (body st) = in_use"
  then show "start_session e d req = (d, Inl (HTTPException 409 ''Station already in use''))"
    by (simp add: start_session_def)
next
  assume a: "oid (ss_station_id req) = Inr i \<and> find_one (by_id i) (db_station d) = Some st \<and>
    st_status (body st) = available"
  then have "st_status (body st) \<noteq> in_use" by simp
  with a show "\<exists>d'. start_session e d req = (d', Inr (new_id e)) \<and>
         db_session d' = db_session d @
           [\<lparr>doc_id = new_id e, created_at = now e, updated_at = None,
             body = \<lparr>se_cafe_id = ss_cafe_id req, se_station_id = ss_station_id req,
                     se_user_id = None, se_customer_name = ss_customer_name req,
                     se_status = active, se_started_at = Some (now e),
                     se_ended_at = None, se_duration_minutes = None,
                     se_total_amount = Some 0\<rparr>\<rparr>] \<and>
         find_one (by_id i) (db_station d') =
           Some (st\<lparr>body := (body st)\<lparr>st_status := in_use,
                                       st_current_session_id := Some (new_id e)\<rparr>\<rparr>)"
    using start_session_free [of req i d st e] by blast
qed


theorem start_session_outcomes_witness:
  "start_session env0 demo
     \<lparr>ss_cafe_id = ''cafe1'', ss_station_id = ''station-7'', ss_customer_name = None\<rparr> =
     (demo, Inl (HTTPException 400 ''Invalid ID'')) \<and>
   start_session env0 demo
     \<lparr>ss_cafe_id = ''cafe1'', ss_station_id = ''64B000000000000000000A09'',
      ss_customer_name = None\<rparr> =
     (demo, Inl (HTTPException 404 ''Station not found'')) \<and>
   start_session env0 demo
     \<lparr>ss_cafe_id = ''cafe1'', ss_station_id = ''64b000000000000000000a02'',
      ss_customer_name = None\<rparr> =
     (demo, Inl (HTTPException 409 ''Station already in use'')) \<and>
   (\<exists>d'. start_session env0 demo
            \<lparr>ss_cafe_id = ''cafe1'', ss_station_id = ''64B000000000000000000A01'',
             ss_customer_name = Some ''Walk-in''\<rparr> = (d', Inr ''64b000000000000000000f01'') \<and>
         length (db_session d') = 3 \<and>
         map_option body (find_one (by_id ''64b000000000000000000a01'') (db_station d')) =
           Some \<lparr>st_cafe_id = ''cafe1'', st_name = ''PS5-1'', st_status = in_use,
                 st_current_session_id = Some ''64b000000000000000000f01''\<rparr>)"
proof -
  have ev: "oid ''station-7'' = Inl (HTTPException 400 ''Invalid ID'')"
    "oid ''64B000000000000000000A09'' = Inr ''64b000000000000000000a09''"
    "oid ''64b000000000000000000a02'' = Inr ''64b000000000000000000a02''"
    "oid ''64B000000000000000000A01'' = Inr ''64b000000000000000000a01''"
    by (simp_all add: oid_def hexdigit_def lower_def)
  have st: "find_one (by_id ''64b000000000000000000a09'') (db_station demo) = None"
    "find_one (by_id ''64b000000000000000000a02'') (db_station demo) = Some (demo_stations ! 1)"
    "find_one (by_id ''64b000000000000000000a01'') (db_station demo) = Some (demo_stations ! 0)"
    by (simp_all add: find_one_def by_id_def demo_defs)
  have b: "st_status (body (demo_stations ! 1)) = in_use"
    "st_status (body (demo_stations ! 0)) = available"
    by (simp_all add: demo_defs)
  note t = start_session_outcomes [where e = env0 and d = demo]
  have "start_session env0 demo
     \<lparr>ss_cafe_id = ''cafe1'', ss_station_id = ''station-7'', ss_customer_name = None\<rparr> =
     (demo, Inl (HTTPException 400 ''Invalid ID''))"
    using t [where req = "\<lparr>ss_cafe_id = ''cafe1'', ss_station_id = ''station-7'',
      ss_customer_name = None\<rparr>" and err = "HTTPException 400 ''Invalid ID''"] ev by simp
  moreover have "start_session env0 demo
     \<lparr>ss_cafe_id = ''cafe1'', ss_station_id = ''64B000000000000000000A09'',
      ss_customer_name = None\<rparr> =
     (demo, Inl (HTTPException 404 ''Station not found''))"
    using t [where req = "\<lparr>ss_cafe_id = ''cafe1'', ss_station_id = ''64B000000000000000000A09'',
      ss_customer_name = None\<rparr>" and i = "''64b000000000000000000a09''"] ev st by simp
  moreover have "start_session env0 demo
     \<lparr>ss_cafe_id = ''cafe1'', ss_station_id = ''64b000000000000000000a02'',
      ss_customer_name = None\<rparr> =
     (demo, Inl (HTTPException 409 ''Station already in use''))"
    using t [where req = "\<lparr>ss_cafe_id = ''cafe1'', ss_station_id = ''64b000000000000000000a02'',
      ss_customer_name = None\<rparr>" and i = "''64b000000000000000000a02''"
      and st = "demo_stations ! 1"] ev st b by simp
  moreover have "\<exists>d'. start_session env0 demo
            \<lparr>ss_cafe_id = ''cafe1'', ss_station_id = ''64B000000000000000000A01'',
             ss_customer_name = Some ''Walk-in''\<rparr> = (d', Inr ''64b000000000000000000f01'') \<and>
         length (db_session d') = 3 \<and>
         map_option body (find_one (by_id ''64b000000000000000000a01'') (db_station d')) =
           Some \<lparr>st_cafe_id = ''cafe1'', st_name = ''PS5-1'', st_status = in_use,
                 st_current_session_id = Some ''64b000000000000000000f01''\<rparr>"
    using t [where req = "\<lparr>ss_cafe_id = ''cafe1'', ss_station_id = ''64B000000000000000000A01'',
      ss_customer_name = Some ''Walk-in''\<rparr>" and i = "''64b000000000000000000a01''"
      and st = "demo_stations ! 0"] ev st b
    by (auto simp: demo_defs)
  ultimately show ?thesis by blast
qed

text \<open>
  C3 as stated fails: \<^verbatim>\<open>station-7\<close> is the id of no station, and the answer is 400, not
  404.
\<close>

theorem start_session_unknown_id_counterexample:
  "''station-7'' \<notin> doc_id ` set (db_station demo) \<and>
   start_session env0 demo
     \<lparr>ss_cafe_id = ''cafe1'', ss_station_id = ''station-7'', ss_customer_name = None\<rparr> =
     (demo, Inl (HTTPException 400 ''Invalid ID'')) \<and>
   snd (start_session env0 demo
     \<lparr>ss_cafe_id = ''cafe1'', ss_station_id = ''station-7'', ss_customer_name = None\<rparr>) \<noteq>
     Inl (HTTPException 404 ''Station not found'')"
  by (simp add: start_session_def oid_def demo_defs)

text \<open>
  C10. Only the status in-use blocks \<^verbatim>\<open>start_session\<close>: on a station that is offline or
  under maintenance the call succeeds, inserts an active session and leaves the station in
  use with that session as its current one.
\<close>

theorem start_session_offline_maintenance:
  assumes "oid (ss_station_id req) = Inr i"
    and "find_one (by_id i) (db_station d) = Some st"
    and "st_status (body st) = offline \<or> st_status (body st) = maintenance"
  shows "\<exists>d'. start_session e d req = (d', Inr (new_id e)) \<and>
           db_session d' = db_session d @
             [\<lparr>doc_id = new_id e, created_at = now e, updated_at = None,
               body = \<lparr>se_cafe_id = ss_cafe_id req, se_station_id = ss_station_id req,
                       se_user_id = None, se_customer_name = ss_customer_name req,
                       se_status = active, se_started_at = Some (now e),
                       se_ended_at = None, se_duration_minutes = None,
                       se_total_amount = Some 0\<rparr>\<rparr>] \<and>
           find_one (by_id i) (db_station d') =
             Some (st\<lparr>body := (body st)\<lparr>st_status := in_use,
                                         st_current_session_id := Some (new_id e)\<rparr>\<rparr>)"
proof -
  from assms(3) have "st_status (body st) \<noteq> in_use" by auto
  with assms(1,2) show ?thesis by (rule start_session_free)
qed

theorem start_session_offline_maintenance_witness:
  "(\<exists>d'. start_session env0 demo
            \<lparr>ss_cafe_id = ''cafe1'', ss_station_id = ''64b000000000000000000a03'',
             ss_customer_name = None\<rparr> = (d', Inr ''64b000000000000000000f01'') \<and>
         map_option (se_status \<circ> body) (find_one (by_id ''64b000000000000000000f01'') (db_session d')) = Some active \<and>
         map_option body (find_one (by_id ''64b000000000000000000a03'') (db_station d')) =
           Some \<lparr>st_cafe_id = ''cafe1'', st_name = ''PC-1'', st_status = in_use,
                 st_current_session_id = Some ''64b000000000000000000f01''\<rparr>) \<and>
   (\<exists>d'. start_session env0 demo
            \<lparr>ss_cafe_id = ''cafe1'', ss_station_id = ''64b000000000000000000a04'',
             ss_customer_name = None\<rparr> = (d', Inr ''64b000000000000000000f01'') \<and>
         map_option (se_status \<circ> body) (find_one (by_id ''64b000000000000000000f01'') (db_session d')) = Some active \<and>
         map_option body (find_one (by_id ''64b000000000000000000a04'') (db_station d')) =
           Some \<lparr>st_cafe_id = ''cafe1'', st_name = ''PC-2'', st_status = in_use,
                 st_current_session_id = Some ''64b000000000000000000f01''\<rparr>)"
proof -
  have ev: "oid ''64b000000000000000000a03'' = Inr ''64b000000000000000000a03''"
    "oid ''64b000000000000000000a04'' = Inr ''64b000000000000000000a04''"
    by (simp_all add: oid_def hexdigit_def lower_def)
  have st: "find_one (by_id ''64b000000000000000000a03'') (db_station demo) = Some (demo_stations ! 2)"
    "find_one (by_id ''64b000000000000000000a04'') (db_station demo) = Some (demo_stations ! 3)"
    by (simp_all add: find_one_def by_id_def demo_defs)
  have b: "st_status (body (demo_stations ! 2)) = offline"
    "st_status (body (demo_stations ! 3)) = maintenance"
    by (simp_all add: demo_defs)
  have "\<exists>d'. start_session env0 demo
            \<lparr>ss_cafe_id = ''cafe1'', ss_station_id = ''64b000000000000000000a03'',
             ss_customer_name = None\<rparr> = (d', Inr ''64b000000000000000000f01'') \<and>
         map_option (se_status \<circ> body) (find_one (by_id ''64b000000000000000000f01'') (db_session d')) = Some active \<and>
         map_option body (find_one (by_id ''64b000000000000000000a03'') (db_station d')) =
           Some \<lparr>st_cafe_id = ''cafe1'', st_name = ''PC-1'', st_status = in_use,
                 st_current_session_id = Some ''64b000000000000000000f01''\<rparr>"
    using start_session_offline_maintenance [where e = env0 and d = demo and req = "\<lparr>ss_cafe_id = ''cafe1'', ss_station_id = ''64b000000000000000000a03'',
             ss_customer_name = None\<rparr>" and i = "''64b000000000000000000a03''" and st = "demo_stations ! 2"] ev st b
    by (auto simp: demo_defs find_one_def by_id_def)
  moreover have "\<exists>d'. start_session env0 demo
            \<lparr>ss_cafe_id = ''cafe1'', ss_station_id = ''64b000000000000000000a04'',
             ss_customer_name = None\<rparr> = (d', Inr ''64b000000000000000000f01'') \<and>
         map_option (se_status \<circ> body) (find_one (by_id ''64b000000000000000000f01'') (db_session d')) = Some active \<and>
         map_option body (find_one (by_id ''64b000000000000000000a04'') (db_station d')) =
           Some \<lparr>st_cafe_id = ''cafe1'', st_name = ''PC-2'', st_status = in_use,
                 st_current_session_id = Some ''64b000000000000000000f01''\<rparr>"
    using start_session_offline_maintenance [where e = env0 and d = demo and req = "\<lparr>ss_cafe_id = ''cafe1'', ss_station_id = ''64b000000000000000000a04'',
             ss_customer_name = None\<rparr>" and i = "''64b000000000000000000a04''" and st = "demo_stations ! 3"] ev st b
    by (auto simp: demo_defs find_one_def by_id_def)
  ultimately show ?thesis by blast
qed

lemma end_session_again:
  "fst (end_session e2 (fst (end_session e d req)) req) = fst (end_session e d req)"
  by (auto simp: end_session_def Let_def find_one_update_one
      split: sum.splits option.splits if_splits)

lemma end_session_repeat:
  "end_session e d req = (d', Inr r) \<Longrightarrow> end_session e2 d' req = (d', Inr True)"
  by (auto simp: end_session_def Let_def find_one_update_one
      split: sum.splits option.splits if_splits)

text \<open>
  C4 (as amended). \<^verbatim>\<open>end_session\<close> on a session that is already ended answers ok and
  leaves the whole store as it was, so sessions and stations keep their fields; a second
  call after a first leaves the store of the first, and answers ok when the first did. It
  answers 404 when the session id is the text of an ObjectId that no session has, and 400
  "Invalid ID" when it is not the text of an ObjectId.
\<close>

theorem end_session_outcomes:
  "(oid (es_session_id req) = Inr i \<and> find_one (by_id i) (db_session d) = Some sess \<and>
    se_status (body sess) = ended \<longrightarrow> end_session e d req = (d, Inr True)) \<and>
   (end_session e d req = (d', Inr r) \<longrightarrow> end_session e2 d' req = (d', Inr True)) \<and>
   fst (end_session e2 (fst (end_session e d req)) req) = fst (end_session e d req) \<and>
   (oid (es_session_id req) = Inr i \<and> find_one (by_id i) (db_session d) = None \<longrightarrow>
      end_session e d req = (d, Inl (HTTPException 404 ''Session not found''))) \<and>
   (oid (es_session_id req) = Inl err \<longrightarrow>
      end_session e d req = (d, Inl (HTTPException 400 ''Invalid ID'')))"
proof (intro conjI impI)
  assume "oid (es_session_id req) = Inr i \<and> find_one (by_id i) (db_session d) = Some sess \<and>
    se_status (body sess) = ended"
  then show "end_session e d req = (d, Inr True)"
    by (simp add: end_session_def)
next
  assume "end_session e d req = (d', Inr r)"
  then show "end_session e2 d' req = (d', Inr True)"
    by (rule end_session_repeat)
next
  show "fst (end_session e2 (fst (end_session e d req)) req) = fst (end_session e d req)"
    by (rule end_session_again)
next
  assume "oid (es_session_id req) = Inr i \<and> find_one (by_id i) (db_session d) = None"
  then show "end_session e d req = (d, Inl (HTTPException 404 ''Session not found''))"
    by (simp add: end_session_def)
next
  assume "oid (es_session_id req) = Inl err"
  then show "end_session e d req = (d, Inl (HTTPException 400 ''Invalid ID''))"
    using oid_Inl [of "es_session_id req" err] by (simp add: end_session_def)
qed

theorem end_session_outcomes_witness:
  "end_session env0 demo \<lparr>es_session_id = ''64b000000000000000000b02''\<rparr> = (demo, Inr True) \<and>
   (\<exists>d'. end_session env0 demo \<lparr>es_session_id = ''64b000000000000000000b01''\<rparr> = (d', Inr True) \<and>
      end_session env1 d' \<lparr>es_session_id = ''64b000000000000000000b01''\<rparr> = (d', Inr True) \<and>
      map_option (st_status \<circ> body) (find_one (by_id ''64b000000000000000000a02'') (db_station d')) =
        Some available) \<and>
   end_session env0 demo \<lparr>es_session_id = ''64b000000000000000000b09''\<rparr> =
     (demo, Inl (HTTPException 404 ''Session not found'')) \<and>
   end_session env0 demo \<lparr>es_session_id = ''session-9''\<rparr> =
     (demo, Inl (HTTPException 400 ''Invalid ID''))"
proof -
  have ev: "oid ''64b000000000000000000b02'' = Inr ''64b000000000000000000b02''"
    "oid ''64b000000000000000000b01'' = Inr ''64b000000000000000000b01''"
    "oid ''64b000000000000000000a02'' = Inr ''64b000000000000000000a02''"
    "oid ''64b000000000000000000b09'' = Inr ''64b000000000000000000b09''"
    "oid ''session-9'' = Inl (HTTPException 400 ''Invalid ID'')"
    by (simp_all add: oid_def hexdigit_def lower_def)
  have se: "find_one (by_id ''64b000000000000000000b02'') (db_session demo) = Some (demo_sessions ! 1)"
    "find_one (by_id ''64b000000000000000000b09'') (db_session demo) = None"
    "se_status (body (demo_sessions ! 1)) = ended"
    by (simp_all add: find_one_def by_id_def demo_defs)
  have first: "\<exists>d'. end_session env0 demo \<lparr>es_session_id = ''64b000000000000000000b01''\<rparr> = (d', Inr True) \<and>
      map_option (st_status \<circ> body) (find_one (by_id ''64b000000000000000000a02'') (db_station d')) =
        Some available"
    by (simp add: end_session_def ev find_one_def by_id_def demo_defs Let_def)
  note t = end_session_outcomes [where e = env0 and d = demo and ?e2.0 = env1]
  have "end_session env0 demo \<lparr>es_session_id = ''64b000000000000000000b02''\<rparr> = (demo, Inr True)"
    using t [where req = "\<lparr>es_session_id = ''64b000000000000000000b02''\<rparr>"
        and i = "''64b000000000000000000b02''" and sess = "demo_sessions ! 1"] ev se
    by simp
  moreover have "\<exists>d'. end_session env0 demo \<lparr>es_session_id = ''64b000000000000000000b01''\<rparr> = (d', Inr True) \<and>
      end_session env1 d' \<lparr>es_session_id = ''64b000000000000000000b01''\<rparr> = (d', Inr True) \<and>
      map_option (st_status \<circ> body) (find_one (by_id ''64b000000000000000000a02'') (db_station d')) =
        Some available"
  proof -
    from first obtain d' where
      d': "end_session env0 demo \<lparr>es_session_id = ''64b000000000000000000b01''\<rparr> = (d', Inr True)"
      "map_option (st_status \<circ> body) (find_one (by_id ''64b000000000000000000a02'') (db_station d')) =
        Some available"
      by blast
    from t [where req = "\<lparr>es_session_id = ''64b000000000000000000b01''\<rparr>" and d' = d' and r = True] d'(1)
    have "end_session env1 d' \<lparr>es_session_id = ''64b000000000000000000b01''\<rparr> = (d', Inr True)"
      by blast
    with d' show ?thesis by blast
  qed
  moreover have "end_session env0 demo \<lparr>es_session_id = ''64b000000000000000000b09''\<rparr> =
     (demo, Inl (HTTPException 404 ''Session not found''))"
    using t [where req = "\<lparr>es_session_id = ''64b000000000000000000b09''\<rparr>"
        and i = "''64b000000000000000000b09''"] ev se
    by simp
  moreover have "end_session env0 demo \<lparr>es_session_id = ''session-9''\<rparr> =
     (demo, Inl (HTTPException 400 ''Invalid ID''))"
    using t [where req = "\<lparr>es_session_id = ''session-9''\<rparr>"
        and err = "HTTPException 400 ''Invalid ID''"] ev
    by simp
  ultimately show ?thesis by blast
qed

text \<open>
  C4 as stated fails in its last part: \<^verbatim>\<open>session-9\<close> is the id of no session, and the
  answer is 400, not 404.
\<close>

theorem end_session_unknown_id_counterexample:
  "''session-9'' \<notin> doc_id ` set (db_session demo) \<and>
   end_session env0 demo \<lparr>es_session_id = ''session-9''\<rparr> =
     (demo, Inl (HTTPException 400 ''Invalid ID'')) \<and>
   snd (end_session env0 demo \<lparr>es_session_id = ''session-9''\<rparr>) \<noteq>
     Inl (HTTPException 404 ''Session not found'')"
  by (simp add: end_session_def oid_def demo_defs)

subsection \<open>Settings\<close>

text \<open>
  C7. \<^verbatim>\<open>get_settings\<close> answers the stored settings of the cafe when there are some.
  When there are none it inserts a record with currency INR, tax rate 0.05 and service
  charge rate 0 and answers these values; a second call then answers the same values and
  leaves the store of the first call, so no further record is created.
\<close>

theorem get_settings_defaults:
  "(find_one (\<lambda>x. s_cafe_id (body x) = c) (db_settings d) = Some st \<longrightarrow>
      get_settings e d c = (d, body st)) \<and>
   (find_one (\<lambda>x. s_cafe_id (body x) = c) (db_settings d) = None \<longrightarrow>
      get_settings e d c =
        (d\<lparr>db_settings := db_settings d @
              [\<lparr>doc_id = new_id e, created_at = now e, updated_at = None,
                body = \<lparr>s_cafe_id = c, s_currency = ''INR'', s_tax_rate = 5 / 100,
                        s_service_charge_rate = 0\<rparr>\<rparr>]\<rparr>,
         \<lparr>s_cafe_id = c, s_currency = ''INR'', s_tax_rate = 5 / 100,
          s_service_charge_rate = 0\<rparr>)) \<and>
   get_settings e2 (fst (get_settings e d c)) c = get_settings e d c"
  by (auto simp: get_settings_def create_document_def Let_def find_one_append
      split: option.splits)

theorem get_settings_defaults_witness:
  "get_settings env0 demo_taxed ''cafe1'' =
     (demo_taxed, \<lparr>s_cafe_id = ''cafe1'', s_currency = ''INR'', s_tax_rate = 5 / 100,
                   s_service_charge_rate = 0\<rparr>) \<and>
   snd (get_settings env0 demo ''cafe1'') =
     \<lparr>s_cafe_id = ''cafe1'', s_currency = ''INR'', s_tax_rate = 5 / 100,
      s_service_charge_rate = 0\<rparr> \<and>
   length (db_settings (fst (get_settings env0 demo ''cafe1''))) = 1 \<and>
   get_settings env1 (fst (get_settings env0 demo ''cafe1'')) ''cafe1'' =
     get_settings env0 demo ''cafe1''"
proof -
  have a: "find_one (\<lambda>x. s_cafe_id (body x) = ''cafe1'') (db_settings demo_taxed) =
      Some (hd (db_settings demo_taxed))"
    "find_one (\<lambda>x. s_cafe_id (body x) = ''cafe1'') (db_settings demo) = None"
    by (simp_all add: find_one_def demo_defs)
  have b: "body (hd (db_settings demo_taxed)) =
      \<lparr>s_cafe_id = ''cafe1'', s_currency = ''INR'', s_tax_rate = 5 / 100,
       s_service_charge_rate = 0\<rparr>"
    by (simp add: demo_defs)
  note t1 = get_settings_defaults [where e = env0 and d = demo_taxed and c = "''cafe1''"
      and st = "hd (db_settings demo_taxed)"]
  note t2 = get_settings_defaults [where e = env0 and d = demo and c = "''cafe1''"
      and ?e2.0 = env1]
  have "get_settings env0 demo_taxed ''cafe1'' =
     (demo_taxed, \<lparr>s_cafe_id = ''cafe1'', s_currency = ''INR'', s_tax_rate = 5 / 100,
                   s_service_charge_rate = 0\<rparr>)"
    using t1 a(1) b by simp
  moreover have "snd (get_settings env0 demo ''cafe1'') =
     \<lparr>s_cafe_id = ''cafe1'', s_currency = ''INR'', s_tax_rate = 5 / 100,
      s_service_charge_rate = 0\<rparr>"
    using t2 a(2) by simp
  moreover have "length (db_settings (fst (get_settings env0 demo ''cafe1''))) = 1"
    using t2 a(2) by (simp add: demo_def)
  moreover have "get_settings env1 (fst (get_settings env0 demo ''cafe1'')) ''cafe1'' =
     get_settings env0 demo ''cafe1''"
    using t2 by blast
  ultimately show ?thesis by blast
qed

subsection \<open>Checkout\<close>

lemma checkout_session_keeps [simp]:
  "db_payment (fst (checkout_session e d r)) = db_payment d"
  "db_order (fst (checkout_session e d r)) = db_order d"
  by (auto simp: checkout_session_def Let_def split: option.splits sum.splits)

lemma checkout_order_keeps [simp]:
  "db_payment (fst (checkout_order e d r)) = db_payment d"
  "db_session (fst (checkout_order e d r)) = db_session d"
  "db_station (fst (checkout_order e d r)) = db_station d"
  by (auto simp: checkout_order_def Let_def split: option.splits sum.splits)

lemma checkout_replay:
  assumes "find_one (\<lambda>x. p_idempotency_key (body x) = Some (ck_idempotency_key req) \<and>
                          p_status (body x) = success) (db_payment d) = Some y"
  shows "checkout e d req = (d, Inr (doc_id y, success))"
  using assms by (simp add: checkout_def)

lemma checkout_fresh:
  assumes "find_one (\<lambda>x. p_idempotency_key (body x) = Some (ck_idempotency_key req) \<and>
                          p_status (body x) = success) (db_payment d) = None"
    and "checkout e d req = (d1, Inr r)"
  shows "r = (new_id e, success) \<and>
         db_payment d1 = db_payment d @
           [\<lparr>doc_id = new_id e, created_at = now e, updated_at = None,
             body = \<lparr>p_cafe_id = ck_cafe_id req, p_order_id = ck_order_id req,
                     p_session_id = ck_session_id req, p_amount = ck_amount req,
                     p_method = ck_method req, p_status = success,
                     p_idempotency_key = Some (ck_idempotency_key req),
                     p_reference = None\<rparr>\<rparr>]"
proof -
  let ?pay = "\<lparr>p_cafe_id = ck_cafe_id req, p_order_id = ck_order_id req,
                     p_session_id = ck_session_id req, p_amount = ck_amount req,
                     p_method = ck_method req, p_status = success,
                     p_idempotency_key = Some (ck_idempotency_key req),
                     p_reference = None\<rparr>"
  let ?d1 = "d\<lparr>db_payment := db_payment d @
           [\<lparr>doc_id = new_id e, created_at = now e, updated_at = None, body = ?pay\<rparr>]\<rparr>"
  from assms have p: "Payment ?pay = Inr ?pay"
    by (auto simp: checkout_def Payment_def split: if_splits)
  obtain d2 u where s: "checkout_session e ?d1 (ck_session_id req) = (d2, u)"
    by (cases "checkout_session e ?d1 (ck_session_id req)")
  obtain d3 v where t: "checkout_order e d2 (ck_order_id req) = (d3, v)"
    by (cases "checkout_order e d2 (ck_order_id req)")
  from s have k2: "db_payment d2 = db_payment ?d1"
    using checkout_session_keeps(1) [of e ?d1 "ck_session_id req"] by simp
  from t have k3: "db_payment d3 = db_payment d2"
    using checkout_order_keeps(1) [of e d2 "ck_order_id req"] by simp
  from assms p s t show ?thesis
    using k2 k3
    by (auto simp: checkout_def create_document_def Let_def split: sum.splits)
qed

lemma checkout_repeat:
  assumes "checkout e d req = (d1, Inr (pid, st))"
    and "ck_idempotency_key req2 = ck_idempotency_key req"
  shows "st = success \<and> checkout e2 d1 req2 = (d1, Inr (pid, success))"
proof (cases "find_one (\<lambda>x. p_idempotency_key (body x) = Some (ck_idempotency_key req) \<and>
                          p_status (body x) = success) (db_payment d)")
  case (Some y)
  with assms show ?thesis by (auto simp: checkout_def)
next
  case None
  from checkout_fresh [OF None assms(1)] assms(2) None show ?thesis
    by (simp add: checkout_def find_one_append)
qed

lemma filter_none: "find_one q xs = None \<Longrightarrow> filter q xs = []"
  by (induction xs) (auto simp: find_one_def split: if_splits)

lemma checkout_replay_any:
  assumes "x \<in> set (db_payment d)"
    and "p_idempotency_key (body x) = Some (ck_idempotency_key req)"
    and "p_status (body x) = success"
  shows "\<exists>y \<in> set (db_payment d).
           p_idempotency_key (body y) = Some (ck_idempotency_key req) \<and>
           p_status (body y) = success \<and>
           checkout e d req = (d, Inr (doc_id y, success))"
proof -
  let ?q = "\<lambda>x. p_idempotency_key (body x) = Some (ck_idempotency_key req) \<and>
                 p_status (body x) = success"
  from assms have "find_one ?q (db_payment d) \<noteq> None"
    by (auto simp: find_one_None)
  then obtain y where y: "find_one ?q (db_payment d) = Some y" by blast
  from find_one_Some [OF y] checkout_replay [OF y, of e] show ?thesis
    by blast
qed

lemma checkout_one_more:
  assumes "checkout e d req = (d1, Inr (pid, st))"
  shows "length (db_payment d1) \<le> Suc (length (db_payment d))"
proof (cases "find_one (\<lambda>x. p_idempotency_key (body x) = Some (ck_idempotency_key req) \<and>
                          p_status (body x) = success) (db_payment d)")
  case None
  from checkout_fresh [OF None assms] show ?thesis by simp
next
  case (Some y)
  with assms show ?thesis by (auto simp: checkout_def)
qed

lemma checkout_exactly_one:
  assumes "checkout e d req = (d1, Inr (pid, st))"
    and "find_one (\<lambda>x. p_idempotency_key (body x) = Some (ck_idempotency_key req) \<and>
                      p_status (body x) = success) (db_payment d) = None"
  shows "length (db_payment d1) = Suc (length (db_payment d)) \<and>
         length (filter (\<lambda>x. p_idempotency_key (body x) = Some (ck_idempotency_key req) \<and>
                             p_status (body x) = success) (db_payment d1)) = 1"
  using checkout_fresh [OF assms(2) assms(1)] filter_none [OF assms(2)] by simp

text \<open>
  C1. When a payment with the request's idempotency key and status success is stored,
  \<^verbatim>\<open>checkout\<close> answers the id of such a payment with status success and leaves the whole
  store as it was, whatever the amount, method, order and session of the request. So
  after a checkout that succeeded, a second one with the same key answers the same
  payment id and changes nothing; when no successful payment with the key was stored
  before, the first call inserted one payment and exactly one successful payment with
  the key is stored after both.
\<close>

theorem checkout_idempotent:
  "(x \<in> set (db_payment d) \<and> p_idempotency_key (body x) = Some (ck_idempotency_key req) \<and>
    p_status (body x) = success \<longrightarrow>
      (\<exists>y \<in> set (db_payment d).
         p_idempotency_key (body y) = Some (ck_idempotency_key req) \<and>
         p_status (body y) = success \<and>
         checkout e d req = (d, Inr (doc_id y, success)))) \<and>
   (checkout e d req = (d1, Inr (pid, st)) \<and>
    ck_idempotency_key req2 = ck_idempotency_key req \<longrightarrow>
      st = success \<and> checkout e2 d1 req2 = (d1, Inr (pid, success)) \<and>
      length (db_payment d1) \<le> Suc (length (db_payment d)) \<and>
      (find_one (\<lambda>x. p_idempotency_key (body x) = Some (ck_idempotency_key req) \<and>
                      p_status (body x) = success) (db_payment d) = None \<longrightarrow>
         length (db_payment d1) = Suc (length (db_payment d)) \<and>
         length (filter (\<lambda>x. p_idempotency_key (body x) = Some (ck_idempotency_key req) \<and>
                             p_status (body x) = success) (db_payment d1)) = 1))"
proof (intro conjI impI)
  assume "x \<in> set (db_payment d) \<and> p_idempotency_key (body x) = Some (ck_idempotency_key req) \<and>
    p_status (body x) = success"
  then show "\<exists>y \<in> set (db_payment d).
         p_idempotency_key (body y) = Some (ck_idempotency_key req) \<and>
         p_status (body y) = success \<and>
         checkout e d req = (d, Inr (doc_id y, success))"
    using checkout_replay_any [of x d req e] by blast
next
  assume a: "checkout e d req = (d1, Inr (pid, st)) \<and>
    ck_idempotency_key req2 = ck_idempotency_key req"
  from a checkout_repeat [of e d req d1 pid st req2 e2]
  show "st = success" and "checkout e2 d1 req2 = (d1, Inr (pid, success))"
    by blast+
  from a show "length (db_payment d1) \<le> Suc (length (db_payment d))"
    using checkout_one_more [of e d req d1 pid st] by blast
  assume n: "find_one (\<lambda>x. p_idempotency_key (body x) = Some (ck_idempotency_key req) \<and>
                      p_status (body x) = success) (db_payment d) = None"
  from a n checkout_exactly_one [of e d req d1 pid st]
  show "length (db_payment d1) = Suc (length (db_payment d))"
    and "length (filter (\<lambda>x. p_idempotency_key (body x) = Some (ck_idempotency_key req) \<and>
                             p_status (body x) = success) (db_payment d1)) = 1"
    by blast+
qed


lemmas eval_defs =
  oid_def hexdigit_def lower_def find_one_def by_id_def create_document_def audit_def
  now_iso_def Let_def

theorem checkout_idempotent_witness:
  "checkout env0 demo
     \<lparr>ck_cafe_id = ''cafe1'', ck_session_id = None,
      ck_order_id = Some ''64b000000000000000000d01'', ck_amount = 999, ck_method = card,
      ck_idempotency_key = ''key-1''\<rparr> = (demo, Inr (''64b000000000000000000e01'', success)) \<and>
   (\<exists>d1. checkout env0 demo
            \<lparr>ck_cafe_id = ''cafe1'', ck_session_id = Some ''64b000000000000000000b01'',
             ck_order_id = Some ''64b000000000000000000d01'', ck_amount = 100,
             ck_method = upi, ck_idempotency_key = ''key-2''\<rparr> =
            (d1, Inr (''64b000000000000000000f01'', success)) \<and>
          checkout env1 d1
            \<lparr>ck_cafe_id = ''cafe1'', ck_session_id = None, ck_order_id = None,
             ck_amount = 5, ck_method = cash, ck_idempotency_key = ''key-2''\<rparr> =
            (d1, Inr (''64b000000000000000000f01'', success)) \<and>
          length (db_payment d1) = 2 \<and>
          length (filter (\<lambda>x. p_idempotency_key (body x) = Some ''key-2'' \<and>
                              p_status (body x) = success) (db_payment d1)) = 1)"
proof -
  let ?r1 = "\<lparr>ck_cafe_id = ''cafe1'', ck_session_id = None,
      ck_order_id = Some ''64b000000000000000000d01'', ck_amount = 999, ck_method = card,
      ck_idempotency_key = ''key-1''\<rparr>"
  let ?r2 = "\<lparr>ck_cafe_id = ''cafe1'', ck_session_id = Some ''64b000000000000000000b01'',
             ck_order_id = Some ''64b000000000000000000d01'', ck_amount = 100,
             ck_method = upi, ck_idempotency_key = ''key-2''\<rparr>"
  let ?r3 = "\<lparr>ck_cafe_id = ''cafe1'', ck_session_id = None, ck_order_id = None,
             ck_amount = 5, ck_method = cash, ck_idempotency_key = ''key-2''\<rparr>"
  have p: "hd demo_payments \<in> set (db_payment demo)"
    "p_idempotency_key (body (hd demo_payments)) = Some (ck_idempotency_key ?r1)"
    "p_status (body (hd demo_payments)) = success"
    by (simp_all add: demo_defs)
  from checkout_idempotent [where x = "hd demo_payments" and d = demo and req = ?r1 and e = env0] p
  have "\<exists>y \<in> set (db_payment demo). checkout env0 demo ?r1 = (demo, Inr (doc_id y, success))"
    by blast
  then have one: "checkout env0 demo ?r1 = (demo, Inr (''64b000000000000000000e01'', success))"
    by (simp add: demo_defs)
  have "\<exists>d1. checkout env0 demo ?r2 = (d1, Inr (''64b000000000000000000f01'', success))"
    by (simp add: checkout_def checkout_session_def checkout_order_def Payment_def
        eval_defs demo_defs)
  then obtain d1 where
    d1: "checkout env0 demo ?r2 = (d1, Inr (''64b000000000000000000f01'', success))"
    by blast
  have n: "find_one (\<lambda>x. p_idempotency_key (body x) = Some (ck_idempotency_key ?r2) \<and>
                      p_status (body x) = success) (db_payment demo) = None"
    by (simp add: find_one_def demo_defs)
  have k: "ck_idempotency_key ?r3 = ck_idempotency_key ?r2" by simp
  from checkout_idempotent [where e = env0 and d = demo and req = ?r2 and ?d1.0 = d1
      and pid = "''64b000000000000000000f01''" and st = success and ?req2.0 = ?r3
      and ?e2.0 = env1] d1 n k
  have "checkout env1 d1 ?r3 = (d1, Inr (''64b000000000000000000f01'', success)) \<and>
    length (db_payment d1) = Suc (length (db_payment demo)) \<and>
    length (filter (\<lambda>x. p_idempotency_key (body x) = Some (ck_idempotency_key ?r2) \<and>
                        p_status (body x) = success) (db_payment d1)) = 1"
    by blast
  then have "checkout env1 d1 ?r3 = (d1, Inr (''64b000000000000000000f01'', success)) \<and>
    length (db_payment d1) = 2 \<and>
    length (filter (\<lambda>x. p_idempotency_key (body x) = Some ''key-2'' \<and>
                        p_status (body x) = success) (db_payment d1)) = 1"
    by (simp add: demo_defs)
  with one d1 show ?thesis by blast
qed

lemma oid_nonempty: "oid s = Inr i \<Longrightarrow> s \<noteq> []"
  by (auto simp: oid_def split: if_splits)

lemma checkout_session_effect:
  assumes "oid s = Inr i"
    and "find_one (by_id i) (db_session d) = Some sess"
    and "se_status (body sess) \<noteq> ended"
    and "oid (se_station_id (body sess)) = Inr j"
  shows "snd (checkout_session e d (Some s)) = Inr () \<and>
         find_one (by_id i) (db_session (fst (checkout_session e d (Some s)))) =
           Some (sess\<lparr>body := (body sess)\<lparr>se_status := ended,
                                             se_ended_at := Some (now e)\<rparr>\<rparr>) \<and>
         find_one (by_id j) (db_station (fst (checkout_session e d (Some s)))) =
           map_option (\<lambda>x. x\<lparr>body := (body x)\<lparr>st_status := available,
                                                 st_current_session_id := None\<rparr>\<rparr>)
             (find_one (by_id j) (db_station d))"
  using assms oid_nonempty [OF assms(1)]
  by (simp add: checkout_session_def Let_def now_iso_def find_one_update_one)

lemma checkout_session_ok:
  "session_ref_ok d r \<Longrightarrow> snd (checkout_session e d r) = Inr ()"
  by (auto simp: session_ref_ok_def checkout_session_def Let_def
      split: option.splits sum.splits)

lemma checkout_order_ok: "ref_ok r \<Longrightarrow> snd (checkout_order e d r) = Inr ()"
  by (auto simp: ref_ok_def checkout_order_def Let_def split: option.splits sum.splits)

lemma checkout_order_effect:
  assumes "oid s = Inr k"
  shows "find_one (by_id k) (db_order (fst (checkout_order e d (Some s)))) =
           map_option (\<lambda>x. x\<lparr>body := (body x)\<lparr>o_status := served\<rparr>\<rparr>)
             (find_one (by_id k) (db_order d))"
  using assms oid_nonempty [OF assms]
  by (simp add: checkout_order_def Let_def find_one_update_one)

lemma session_ref_ok_cong:
  "db_session d' = db_session d \<Longrightarrow> session_ref_ok d' r = session_ref_ok d r"
  by (auto simp: session_ref_ok_def split: option.splits sum.splits)

text \<open>
  The store and the outcome of a checkout that is not a replay and whose amount is not
  negative, in terms of the two blocks.
\<close>

lemma checkout_unfold:
  assumes "find_one (\<lambda>x. p_idempotency_key (body x) = Some (ck_idempotency_key req) \<and>
                          p_status (body x) = success) (db_payment d) = None"
    and "0 \<le> ck_amount req"
    and "d1 = d\<lparr>db_payment := db_payment d @
           [\<lparr>doc_id = new_id e, created_at = now e, updated_at = None,
             body = \<lparr>p_cafe_id = ck_cafe_id req, p_order_id = ck_order_id req,
                     p_session_id = ck_session_id req, p_amount = ck_amount req,
                     p_method = ck_method req, p_status = success,
                     p_idempotency_key = Some (ck_idempotency_key req),
                     p_reference = None\<rparr>\<rparr>]\<rparr>"
    and "d2 = fst (checkout_session e d1 (ck_session_id req))"
    and "d3 = fst (checkout_order e d2 (ck_order_id req))"
  shows "db_session (fst (checkout e d req)) = db_session d2"
    and "db_station (fst (checkout e d req)) = db_station d2"
    and "snd (checkout_session e d1 (ck_session_id req)) = Inr () \<Longrightarrow>
         db_order (fst (checkout e d req)) = db_order d3"
    and "snd (checkout_session e d1 (ck_session_id req)) = Inr () \<Longrightarrow>
         snd (checkout_order e d2 (ck_order_id req)) = Inr () \<Longrightarrow>
         snd (checkout e d req) = Inr (new_id e, success)"
    and "db_payment (fst (checkout e d req)) = db_payment d1"
    and "snd (checkout_session e d1 (ck_session_id req)) = Inl err \<Longrightarrow>
         snd (checkout e d req) = Inl err"
    and "snd (checkout_session e d1 (ck_session_id req)) = Inr () \<Longrightarrow>
         snd (checkout_order e d2 (ck_order_id req)) = Inl err \<Longrightarrow>
         snd (checkout e d req) = Inl err"
proof -
  obtain u where s: "checkout_session e d1 (ck_session_id req) = (d2, u)"
    using assms(4) by (cases "checkout_session e d1 (ck_session_id req)") simp
  obtain v where t: "checkout_order e d2 (ck_order_id req) = (d3, v)"
    using assms(5) by (cases "checkout_order e d2 (ck_order_id req)") simp
  have k: "db_session d3 = db_session d2" "db_station d3 = db_station d2"
    using checkout_order_keeps(2,3) [of e d2 "ck_order_id req"] t by simp_all
  show "db_session (fst (checkout e d req)) = db_session d2"
    using assms(1,2,3) s t k
    by (auto simp: checkout_def Payment_def create_document_def Let_def split: sum.splits)
  show "db_station (fst (checkout e d req)) = db_station d2"
    using assms(1,2,3) s t k
    by (auto simp: checkout_def Payment_def create_document_def Let_def split: sum.splits)
  show "snd (checkout_session e d1 (ck_session_id req)) = Inr () \<Longrightarrow>
         db_order (fst (checkout e d req)) = db_order d3"
    using assms(1,2,3) s t
    by (auto simp: checkout_def Payment_def create_document_def Let_def split: sum.splits)
  show "snd (checkout_session e d1 (ck_session_id req)) = Inr () \<Longrightarrow>
         snd (checkout_order e d2 (ck_order_id req)) = Inr () \<Longrightarrow>
         snd (checkout e d req) = Inr (new_id e, success)"
    using assms(1,2,3) s t
    by (auto simp: checkout_def Payment_def create_document_def Let_def split: sum.splits)
  have p2: "db_payment d2 = db_payment d1"
    using checkout_session_keeps(1) [of e d1 "ck_session_id req"] s by simp
  have p3: "db_payment d3 = db_payment d2"
    using checkout_order_keeps(1) [of e d2 "ck_order_id req"] t by simp
  show "db_payment (fst (checkout e d req)) = db_payment d1"
    using assms(1,2,3) s t p2 p3
    by (auto simp: checkout_def Payment_def create_document_def Let_def split: sum.splits)
  show "snd (checkout_session e d1 (ck_session_id req)) = Inl err \<Longrightarrow>
         snd (checkout e d req) = Inl err"
    using assms(1,2,3) s t
    by (auto simp: checkout_def Payment_def create_document_def Let_def split: sum.splits)
  show "snd (checkout_session e d1 (ck_session_id req)) = Inr () \<Longrightarrow>
         snd (checkout_order e d2 (ck_order_id req)) = Inl err \<Longrightarrow>
         snd (checkout e d req) = Inl err"
    using assms(1,2,3) s t
    by (auto simp: checkout_def Payment_def create_document_def Let_def split: sum.splits)
qed

lemma checkout_session_ends:
  assumes "oid s = Inr i"
    and "find_one (by_id i) (db_session d) = Some sess"
    and "se_status (body sess) \<noteq> ended"
  shows "find_one (by_id i) (db_session (fst (checkout_session e d (Some s)))) =
           Some (sess\<lparr>body := (body sess)\<lparr>se_status := ended,
                                             se_ended_at := Some (now e)\<rparr>\<rparr>)"
  using assms oid_nonempty [OF assms(1)]
  by (simp add: checkout_session_def Let_def now_iso_def find_one_update_one split: sum.splits)

lemma checkout_session_Inl:
  "snd (checkout_session e d r) = Inl err \<Longrightarrow> err = HTTPException 400 ''Invalid ID''"
  by (auto simp: checkout_session_def Let_def split: option.splits sum.splits if_splits
      dest: oid_Inl)

lemma isl_oid: "isl (oid s) \<Longrightarrow> oid s = Inl (HTTPException 400 ''Invalid ID'')"
  by (cases "oid s") (auto dest: oid_Inl)

lemma checkout_session_bad:
  "s \<noteq> [] \<Longrightarrow> isl (oid s) \<Longrightarrow>
   snd (checkout_session e d (Some s)) = Inl (HTTPException 400 ''Invalid ID'')"
  by (simp add: checkout_session_def isl_oid)

lemma checkout_order_bad:
  "s \<noteq> [] \<Longrightarrow> isl (oid s) \<Longrightarrow>
   snd (checkout_order e d (Some s)) = Inl (HTTPException 400 ''Invalid ID'')"
  by (simp add: checkout_order_def isl_oid)

text \<open>
  C6 (as amended). For a checkout that is not a replay, with an amount that is not
  negative (as the request schema has it), the payment is inserted first, whatever becomes
  of the rest of the call. Then:
  \<^item> when the session id is the text of an ObjectId that names a stored session which is not
    ended, the store after the call has that session ended, with the end timestamp; and
    when that session's stored station id is the text of an ObjectId, the station with
    that id, if stored, is available with no current session;
  \<^item> when the order id is the text of an ObjectId and the session block did not raise (the
    session id is absent, empty, or the text of an ObjectId that names no stored session,
    an ended session, or a session whose stored station id is the text of an ObjectId),
    the order with that id, if stored, has status served, whatever its status was;
  \<^item> when the session block does not raise and the order id is absent, empty or the text
    of an ObjectId, the call succeeds with the new payment's id and status success;
  \<^item> when the session id or the order id is a non-empty text that is not the text of an
    ObjectId, the call fails with 400 "Invalid ID".
\<close>

theorem checkout_side_effects:
  assumes "find_one (\<lambda>x. p_idempotency_key (body x) = Some (ck_idempotency_key req) \<and>
                          p_status (body x) = success) (db_payment d) = None"
    and "0 \<le> ck_amount req"
  shows
  "db_payment (fst (checkout e d req)) = db_payment d @
     [\<lparr>doc_id = new_id e, created_at = now e, updated_at = None,
       body = \<lparr>p_cafe_id = ck_cafe_id req, p_order_id = ck_order_id req,
               p_session_id = ck_session_id req, p_amount = ck_amount req,
               p_method = ck_method req, p_status = success,
               p_idempotency_key = Some (ck_idempotency_key req),
               p_reference = None\<rparr>\<rparr>] \<and>
   (ck_session_id req = Some s \<and> oid s = Inr i \<and>
    find_one (by_id i) (db_session d) = Some sess \<and> se_status (body sess) \<noteq> ended \<longrightarrow>
      find_one (by_id i) (db_session (fst (checkout e d req))) =
        Some (sess\<lparr>body := (body sess)\<lparr>se_status := ended,
                                          se_ended_at := Some (now e)\<rparr>\<rparr>)) \<and>
   (ck_session_id req = Some s \<and> oid s = Inr i \<and>
    find_one (by_id i) (db_session d) = Some sess \<and> se_status (body sess) \<noteq> ended \<and>
    oid (se_station_id (body sess)) = Inr j \<longrightarrow>
      find_one (by_id j) (db_station (fst (checkout e d req))) =
        map_option (\<lambda>x. x\<lparr>body := (body x)\<lparr>st_status := available,
                                              st_current_session_id := None\<rparr>\<rparr>)
          (find_one (by_id j) (db_station d))) \<and>
   (ck_order_id req = Some ord \<and> oid ord = Inr k \<and>
    session_ref_ok d (ck_session_id req) \<longrightarrow>
      find_one (by_id k) (db_order (fst (checkout e d req))) =
        map_option (\<lambda>x. x\<lparr>body := (body x)\<lparr>o_status := served\<rparr>\<rparr>)
          (find_one (by_id k) (db_order d))) \<and>
   (session_ref_ok d (ck_session_id req) \<and> ref_ok (ck_order_id req) \<longrightarrow>
      snd (checkout e d req) = Inr (new_id e, success)) \<and>
   (ck_session_id req = Some s \<and> s \<noteq> [] \<and> isl (oid s) \<longrightarrow>
      snd (checkout e d req) = Inl (HTTPException 400 ''Invalid ID'')) \<and>
   (ck_order_id req = Some ord \<and> ord \<noteq> [] \<and> isl (oid ord) \<longrightarrow>
      snd (checkout e d req) = Inl (HTTPException 400 ''Invalid ID''))"
proof -
  define d1 where "d1 = d\<lparr>db_payment := db_payment d @
           [\<lparr>doc_id = new_id e, created_at = now e, updated_at = None,
             body = \<lparr>p_cafe_id = ck_cafe_id req, p_order_id = ck_order_id req,
                     p_session_id = ck_session_id req, p_amount = ck_amount req,
                     p_method = ck_method req, p_status = success,
                     p_idempotency_key = Some (ck_idempotency_key req),
                     p_reference = None\<rparr>\<rparr>]\<rparr>"
  define d2 where "d2 = fst (checkout_session e d1 (ck_session_id req))"
  define d3 where "d3 = fst (checkout_order e d2 (ck_order_id req))"
  note u = checkout_unfold [OF assms d1_def d2_def d3_def]
  have same: "db_session d1 = db_session d" "db_station d1 = db_station d"
    "db_order d1 = db_order d"
    by (simp_all add: d1_def)
  have o2: "db_order d2 = db_order d"
    using checkout_session_keeps(2) [of e d1 "ck_session_id req"] same by (simp add: d2_def)
  have sess_ok: "session_ref_ok d (ck_session_id req) \<Longrightarrow>
      snd (checkout_session e d1 (ck_session_id req)) = Inr ()"
    using checkout_session_ok [of d1 "ck_session_id req" e]
      session_ref_ok_cong [OF same(1), of "ck_session_id req"] by simp
  show ?thesis
  proof (intro conjI impI)
    show "db_payment (fst (checkout e d req)) = db_payment d @
       [\<lparr>doc_id = new_id e, created_at = now e, updated_at = None,
         body = \<lparr>p_cafe_id = ck_cafe_id req, p_order_id = ck_order_id req,
                 p_session_id = ck_session_id req, p_amount = ck_amount req,
                 p_method = ck_method req, p_status = success,
                 p_idempotency_key = Some (ck_idempotency_key req),
                 p_reference = None\<rparr>\<rparr>]"
      using u(5) by (simp add: d1_def)
  next
    assume a: "ck_session_id req = Some s \<and> oid s = Inr i \<and>
      find_one (by_id i) (db_session d) = Some sess \<and> se_status (body sess) \<noteq> ended"
    then have f: "find_one (by_id i) (db_session d1) = Some sess"
      using same by simp
    from a checkout_session_ends [of s i d1 sess e, OF _ f]
    show "find_one (by_id i) (db_session (fst (checkout e d req))) =
        Some (sess\<lparr>body := (body sess)\<lparr>se_status := ended,
                                          se_ended_at := Some (now e)\<rparr>\<rparr>)"
      by (simp add: u(1) d2_def)
  next
    assume a: "ck_session_id req = Some s \<and> oid s = Inr i \<and>
      find_one (by_id i) (db_session d) = Some sess \<and> se_status (body sess) \<noteq> ended \<and>
      oid (se_station_id (body sess)) = Inr j"
    then have f: "find_one (by_id i) (db_session d1) = Some sess"
      using same by simp
    from a checkout_session_effect [of s i d1 sess j e, OF _ f] same
    show "find_one (by_id j) (db_station (fst (checkout e d req))) =
        map_option (\<lambda>x. x\<lparr>body := (body x)\<lparr>st_status := available,
                                              st_current_session_id := None\<rparr>\<rparr>)
          (find_one (by_id j) (db_station d))"
      by (simp add: u(2) d2_def)
  next
    assume a: "ck_order_id req = Some ord \<and> oid ord = Inr k \<and>
      session_ref_ok d (ck_session_id req)"
    then have "db_order (fst (checkout e d req)) = db_order d3"
      using u(3) sess_ok by blast
    with a checkout_order_effect [of ord k e d2] o2
    show "find_one (by_id k) (db_order (fst (checkout e d req))) =
        map_option (\<lambda>x. x\<lparr>body := (body x)\<lparr>o_status := served\<rparr>\<rparr>)
          (find_one (by_id k) (db_order d))"
      by (simp add: d3_def)
  next
    assume a: "session_ref_ok d (ck_session_id req) \<and> ref_ok (ck_order_id req)"
    with u(4) sess_ok checkout_order_ok [of "ck_order_id req" e d2]
    show "snd (checkout e d req) = Inr (new_id e, success)"
      by blast
  next
    assume a: "ck_session_id req = Some s \<and> s \<noteq> [] \<and> isl (oid s)"
    then have "snd (checkout_session e d1 (ck_session_id req)) =
        Inl (HTTPException 400 ''Invalid ID'')"
      using checkout_session_bad [of s e d1] by simp
    then show "snd (checkout e d req) = Inl (HTTPException 400 ''Invalid ID'')"
      by (rule u(6))
  next
    assume a: "ck_order_id req = Some ord \<and> ord \<noteq> [] \<and> isl (oid ord)"
    show "snd (checkout e d req) = Inl (HTTPException 400 ''Invalid ID'')"
    proof (cases "snd (checkout_session e d1 (ck_session_id req))")
      case (Inl err)
      from checkout_session_Inl [OF Inl] Inl u(6) show ?thesis by simp
    next
      case (Inr v)
      then have ok: "snd (checkout_session e d1 (ck_session_id req)) = Inr ()" by simp
      from a have "snd (checkout_order e d2 (ck_order_id req)) =
          Inl (HTTPException 400 ''Invalid ID'')"
        using checkout_order_bad [of ord e d2] by simp
      with ok show ?thesis by (rule u(7))
    qed
  qed
qed

theorem checkout_side_effects_witness:
  "snd (checkout env0 demo
     \<lparr>ck_cafe_id = ''cafe1'', ck_session_id = Some ''64b000000000000000000b01'',
      ck_order_id = Some ''64b000000000000000000d01'', ck_amount = 100, ck_method = upi,
      ck_idempotency_key = ''key-2''\<rparr>) = Inr (''64b000000000000000000f01'', success) \<and>
   length (db_payment (fst (checkout env0 demo
     \<lparr>ck_cafe_id = ''cafe1'', ck_session_id = Some ''64b000000000000000000b01'',
      ck_order_id = Some ''64b000000000000000000d01'', ck_amount = 100, ck_method = upi,
      ck_idempotency_key = ''key-2''\<rparr>))) = 2 \<and>
   map_option body (find_one (by_id ''64b000000000000000000b01'')
     (db_session (fst (checkout env0 demo
     \<lparr>ck_cafe_id = ''cafe1'', ck_session_id = Some ''64b000000000000000000b01'',
      ck_order_id = Some ''64b000000000000000000d01'', ck_amount = 100, ck_method = upi,
      ck_idempotency_key = ''key-2''\<rparr>)))) =
     Some \<lparr>se_cafe_id = ''cafe1'', se_station_id = ''64b000000000000000000a02'',
           se_user_id = None, se_customer_name = Some ''Walk-in'', se_status = ended,
           se_started_at = Some ''2024-05-01T09:00:00+00:00'',
           se_ended_at = Some ''2024-05-01T10:00:00+00:00'',
           se_duration_minutes = None, se_total_amount = Some 0\<rparr> \<and>
   map_option body (find_one (by_id ''64b000000000000000000a02'')
     (db_station (fst (checkout env0 demo
     \<lparr>ck_cafe_id = ''cafe1'', ck_session_id = Some ''64b000000000000000000b01'',
      ck_order_id = Some ''64b000000000000000000d01'', ck_amount = 100, ck_method = upi,
      ck_idempotency_key = ''key-2''\<rparr>)))) =
     Some \<lparr>st_cafe_id = ''cafe1'', st_name = ''PS5-2'', st_status = available,
           st_current_session_id = None\<rparr> \<and>
   map_option (o_status \<circ> body) (find_one (by_id ''64b000000000000000000d01'')
     (db_order (fst (checkout env0 demo
     \<lparr>ck_cafe_id = ''cafe1'', ck_session_id = Some ''64b000000000000000000b01'',
      ck_order_id = Some ''64b000000000000000000d01'', ck_amount = 100, ck_method = upi,
      ck_idempotency_key = ''key-2''\<rparr>)))) = Some served \<and>
   snd (checkout env0 demo
     \<lparr>ck_cafe_id = ''cafe1'', ck_session_id = Some ''session-9'',
      ck_order_id = Some ''64b000000000000000000d01'', ck_amount = 100, ck_method = cash,
      ck_idempotency_key = ''key-3''\<rparr>) = Inl (HTTPException 400 ''Invalid ID'') \<and>
   length (db_payment (fst (checkout env0 demo
     \<lparr>ck_cafe_id = ''cafe1'', ck_session_id = Some ''session-9'',
      ck_order_id = Some ''64b000000000000000000d01'', ck_amount = 100, ck_method = cash,
      ck_idempotency_key = ''key-3''\<rparr>))) = 2 \<and>
   snd (checkout env0 demo
     \<lparr>ck_cafe_id = ''cafe1'', ck_session_id = None, ck_order_id = Some ''order-5'',
      ck_amount = 100, ck_method = card, ck_idempotency_key = ''key-4''\<rparr>) = Inl (HTTPException 400 ''Invalid ID'') \<and>
   length (db_payment (fst (checkout env0 demo
     \<lparr>ck_cafe_id = ''cafe1'', ck_session_id = None, ck_order_id = Some ''order-5'',
      ck_amount = 100, ck_method = card, ck_idempotency_key = ''key-4''\<rparr>))) = 2"
proof -
  let ?r = "\<lparr>ck_cafe_id = ''cafe1'', ck_session_id = Some ''64b000000000000000000b01'',
      ck_order_id = Some ''64b000000000000000000d01'', ck_amount = 100, ck_method = upi,
      ck_idempotency_key = ''key-2''\<rparr>"
  let ?rb = "\<lparr>ck_cafe_id = ''cafe1'', ck_session_id = Some ''session-9'',
      ck_order_id = Some ''64b000000000000000000d01'', ck_amount = 100, ck_method = cash,
      ck_idempotency_key = ''key-3''\<rparr>"
  let ?rc = "\<lparr>ck_cafe_id = ''cafe1'', ck_session_id = None, ck_order_id = Some ''order-5'',
      ck_amount = 100, ck_method = card, ck_idempotency_key = ''key-4''\<rparr>"
  have n: "find_one (\<lambda>x. p_idempotency_key (body x) = Some (ck_idempotency_key ?r) \<and>
                      p_status (body x) = success) (db_payment demo) = None"
    "find_one (\<lambda>x. p_idempotency_key (body x) = Some (ck_idempotency_key ?rb) \<and>
                      p_status (body x) = success) (db_payment demo) = None"
    "find_one (\<lambda>x. p_idempotency_key (body x) = Some (ck_idempotency_key ?rc) \<and>
                      p_status (body x) = success) (db_payment demo) = None"
    by (simp_all add: find_one_def demo_defs)
  have amt: "0 \<le> ck_amount ?r" "0 \<le> ck_amount ?rb" "0 \<le> ck_amount ?rc" by simp_all
  have ev: "oid ''64b000000000000000000b01'' = Inr ''64b000000000000000000b01''"
    "oid ''64b000000000000000000a02'' = Inr ''64b000000000000000000a02''"
    "oid ''64b000000000000000000d01'' = Inr ''64b000000000000000000d01''"
    "isl (oid ''session-9'')" "isl (oid ''order-5'')"
    by (simp_all add: oid_def hexdigit_def lower_def)
  have se: "find_one (by_id ''64b000000000000000000b01'') (db_session demo) =
      Some (demo_sessions ! 0)"
    "se_status (body (demo_sessions ! 0)) \<noteq> ended"
    "se_station_id (body (demo_sessions ! 0)) = ''64b000000000000000000a02''"
    by (simp_all add: find_one_def by_id_def demo_defs)
  have ok: "session_ref_ok demo (ck_session_id ?r)" "ref_ok (ck_order_id ?r)"
    using ev se by (simp_all add: session_ref_ok_def ref_ok_def)
  have st: "map_option body (find_one (by_id ''64b000000000000000000a02'') (db_station demo)) =
      Some \<lparr>st_cafe_id = ''cafe1'', st_name = ''PS5-2'', st_status = in_use,
            st_current_session_id = Some ''64b000000000000000000b01''\<rparr>"
    "map_option (o_status \<circ> body) (find_one (by_id ''64b000000000000000000d01'') (db_order demo)) =
      Some pending"
    by (simp_all add: find_one_def by_id_def demo_defs)
  have len: "length (db_payment demo) = 1" by (simp add: demo_defs)
  note t = checkout_side_effects [OF n(1) amt(1), where e = env0
      and s = "''64b000000000000000000b01''" and i = "''64b000000000000000000b01''"
      and sess = "demo_sessions ! 0" and j = "''64b000000000000000000a02''"
      and ord = "''64b000000000000000000d01''" and k = "''64b000000000000000000d01''"]
  note tb = checkout_side_effects [OF n(2) amt(2), where e = env0 and s = "''session-9''"]
  note tc = checkout_side_effects [OF n(3) amt(3), where e = env0 and ord = "''order-5''"]
  have "snd (checkout env0 demo ?r) = Inr (''64b000000000000000000f01'', success)"
    using t ok by (simp add: env0_def)
  moreover have "length (db_payment (fst (checkout env0 demo ?r))) = 2"
    using t len by simp
  moreover have "map_option body (find_one (by_id ''64b000000000000000000b01'')
     (db_session (fst (checkout env0 demo ?r)))) =
     Some \<lparr>se_cafe_id = ''cafe1'', se_station_id = ''64b000000000000000000a02'',
           se_user_id = None, se_customer_name = Some ''Walk-in'', se_status = ended,
           se_started_at = Some ''2024-05-01T09:00:00+00:00'',
           se_ended_at = Some ''2024-05-01T10:00:00+00:00'',
           se_duration_minutes = None, se_total_amount = Some 0\<rparr>"
    using t ev se by (simp add: demo_defs)
  moreover have "map_option body (find_one (by_id ''64b000000000000000000a02'')
     (db_station (fst (checkout env0 demo ?r)))) =
     Some \<lparr>st_cafe_id = ''cafe1'', st_name = ''PS5-2'', st_status = available,
           st_current_session_id = None\<rparr>"
    using t ev se st(1) by (auto simp: option.map_comp comp_def)
  moreover have "map_option (o_status \<circ> body) (find_one (by_id ''64b000000000000000000d01'')
     (db_order (fst (checkout env0 demo ?r)))) = Some served"
    using t ev ok st(2) by (auto simp: option.map_comp comp_def)
  moreover have "snd (checkout env0 demo ?rb) = Inl (HTTPException 400 ''Invalid ID'')"
    using tb ev by simp
  moreover have "length (db_payment (fst (checkout env0 demo ?rb))) = 2"
    using tb len by simp
  moreover have "snd (checkout env0 demo ?rc) = Inl (HTTPException 400 ''Invalid ID'')"
    using tc ev by simp
  moreover have "length (db_payment (fst (checkout env0 demo ?rc))) = 2"
    using tc len by simp
  ultimately show ?thesis by blast
qed

text \<open>
  C6 as stated fails in its second part: with a session id that is not the text of an
  ObjectId, the call raises after the payment is inserted, and the order named by the
  request keeps its status.
\<close>

theorem checkout_order_not_served_counterexample:
  "find_one (\<lambda>x. p_idempotency_key (body x) = Some ''key-3'' \<and> p_status (body x) = success)
     (db_payment demo) = None \<and>
   snd (checkout env0 demo
     \<lparr>ck_cafe_id = ''cafe1'', ck_session_id = Some ''session-9'',
      ck_order_id = Some ''64b000000000000000000d01'', ck_amount = 100, ck_method = cash,
      ck_idempotency_key = ''key-3''\<rparr>) = Inl (HTTPException 400 ''Invalid ID'') \<and>
   map_option (o_status \<circ> body) (find_one (by_id ''64b000000000000000000d01'')
     (db_order (fst (checkout env0 demo
     \<lparr>ck_cafe_id = ''cafe1'', ck_session_id = Some ''session-9'',
      ck_order_id = Some ''64b000000000000000000d01'', ck_amount = 100, ck_method = cash,
      ck_idempotency_key = ''key-3''\<rparr>)))) = Some pending \<and>
   length (db_payment (fst (checkout env0 demo
     \<lparr>ck_cafe_id = ''cafe1'', ck_session_id = Some ''session-9'',
      ck_order_id = Some ''64b000000000000000000d01'', ck_amount = 100, ck_method = cash,
      ck_idempotency_key = ''key-3''\<rparr>))) = 2"
  by (simp add: checkout_def checkout_session_def Payment_def eval_defs demo_defs)

subsection \<open>Orders\<close>





















subsection \<open>The audit log\<close>

lemma without_audit_eq:
  "without_audit d = without_audit d' \<longleftrightarrow>
     db_user d = db_user d' \<and> db_station d = db_station d' \<and> db_session d = db_session d' \<and>
     db_menuitem d = db_menuitem d' \<and> db_order d = db_order d' \<and>
     db_payment d = db_payment d' \<and> db_settings d = db_settings d'"
  by (cases d; cases d') (auto simp: without_audit_def)

lemma audit_without [simp]: "without_audit (audit e a t r p u c d) = without_audit d"
  by (simp add: without_audit_eq)

lemma register_audit:
  assumes "without_audit d = without_audit d'"
  shows "snd (register (e\<lparr>audit_ok := f\<rparr>) d x) = snd (register (e\<lparr>audit_ok := g\<rparr>) d' x) \<and>
         without_audit (fst (register (e\<lparr>audit_ok := f\<rparr>) d x)) =
         without_audit (fst (register (e\<lparr>audit_ok := g\<rparr>) d' x))"
  using assms unfolding without_audit_eq
  by (auto simp: register_def create_document_def Let_def split: option.splits)

lemma create_station_audit:
  assumes "without_audit d = without_audit d'"
  shows "snd (create_station (e\<lparr>audit_ok := f\<rparr>) d x) =
         snd (create_station (e\<lparr>audit_ok := g\<rparr>) d' x) \<and>
         without_audit (fst (create_station (e\<lparr>audit_ok := f\<rparr>) d x)) =
         without_audit (fst (create_station (e\<lparr>audit_ok := g\<rparr>) d' x))"
  using assms unfolding without_audit_eq
  by (auto simp: create_station_def create_document_def Let_def)

lemma update_station_status_audit:
  assumes "without_audit d = without_audit d'"
  shows "snd (update_station_status (e\<lparr>audit_ok := f\<rparr>) d x) =
         snd (update_station_status (e\<lparr>audit_ok := g\<rparr>) d' x) \<and>
         without_audit (fst (update_station_status (e\<lparr>audit_ok := f\<rparr>) d x)) =
         without_audit (fst (update_station_status (e\<lparr>audit_ok := g\<rparr>) d' x))"
  using assms unfolding without_audit_eq
  by (auto simp: update_station_status_def Let_def split: sum.splits option.splits)

lemma start_session_audit:
  assumes "without_audit d = without_audit d'"
  shows "snd (start_session (e\<lparr>audit_ok := f\<rparr>) d x) =
         snd (start_session (e\<lparr>audit_ok := g\<rparr>) d' x) \<and>
         without_audit (fst (start_session (e\<lparr>audit_ok := f\<rparr>) d x)) =
         without_audit (fst (start_session (e\<lparr>audit_ok := g\<rparr>) d' x))"
  using assms unfolding without_audit_eq
  by (auto simp: start_session_def create_document_def now_iso_def Let_def
      split: sum.splits option.splits)

lemma end_session_audit:
  assumes "without_audit d = without_audit d'"
  shows "snd (end_session (e\<lparr>audit_ok := f\<rparr>) d x) =
         snd (end_session (e\<lparr>audit_ok := g\<rparr>) d' x) \<and>
         without_audit (fst (end_session (e\<lparr>audit_ok := f\<rparr>) d x)) =
         without_audit (fst (end_session (e\<lparr>audit_ok := g\<rparr>) d' x))"
  using assms unfolding without_audit_eq
  by (auto simp: end_session_def now_iso_def Let_def split: sum.splits option.splits)

lemma create_menu_item_audit:
  assumes "without_audit d = without_audit d'"
  shows "snd (create_menu_item (e\<lparr>audit_ok := f\<rparr>) d x) =
         snd (create_menu_item (e\<lparr>audit_ok := g\<rparr>) d' x) \<and>
         without_audit (fst (create_menu_item (e\<lparr>audit_ok := f\<rparr>) d x)) =
         without_audit (fst (create_menu_item (e\<lparr>audit_ok := g\<rparr>) d' x))"
  using assms unfolding without_audit_eq
  by (auto simp: create_menu_item_def create_document_def Let_def split: sum.splits)

lemma create_order_audit:
  assumes "without_audit d = without_audit d'"
  shows "snd (create_order (e\<lparr>audit_ok := f\<rparr>) d x) =
         snd (create_order (e\<lparr>audit_ok := g\<rparr>) d' x) \<and>
         without_audit (fst (create_order (e\<lparr>audit_ok := f\<rparr>) d x)) =
         without_audit (fst (create_order (e\<lparr>audit_ok := g\<rparr>) d' x))"
  using assms unfolding without_audit_eq
  by (auto simp: create_order_def create_document_def Let_def split: sum.splits prod.splits)

lemma update_order_status_audit:
  assumes "without_audit d = without_audit d'"
  shows "snd (update_order_status (e\<lparr>audit_ok := f\<rparr>) d x) =
         snd (update_order_status (e\<lparr>audit_ok := g\<rparr>) d' x) \<and>
         without_audit (fst (update_order_status (e\<lparr>audit_ok := f\<rparr>) d x)) =
         without_audit (fst (update_order_status (e\<lparr>audit_ok := g\<rparr>) d' x))"
  using assms unfolding without_audit_eq
  by (auto simp: update_order_status_def Let_def split: sum.splits option.splits)

lemma update_settings_audit:
  assumes "without_audit d = without_audit d'"
  shows "snd (update_settings (e\<lparr>audit_ok := f\<rparr>) d x) =
         snd (update_settings (e\<lparr>audit_ok := g\<rparr>) d' x) \<and>
         without_audit (fst (update_settings (e\<lparr>audit_ok := f\<rparr>) d x)) =
         without_audit (fst (update_settings (e\<lparr>audit_ok := g\<rparr>) d' x))"
  using assms unfolding without_audit_eq
  by (auto simp: update_settings_def create_document_def Let_def split: option.splits)

lemma checkout_session_audit:
  assumes "without_audit d = without_audit d'"
  shows "snd (checkout_session (e\<lparr>audit_ok := f\<rparr>) d x) =
         snd (checkout_session (e\<lparr>audit_ok := g\<rparr>) d' x) \<and>
         without_audit (fst (checkout_session (e\<lparr>audit_ok := f\<rparr>) d x)) =
         without_audit (fst (checkout_session (e\<lparr>audit_ok := g\<rparr>) d' x))"
  using assms unfolding without_audit_eq
  by (auto simp: checkout_session_def now_iso_def Let_def split: sum.splits option.splits)

lemma checkout_order_audit:
  assumes "without_audit d = without_audit d'"
  shows "snd (checkout_order (e\<lparr>audit_ok := f\<rparr>) d x) =
         snd (checkout_order (e\<lparr>audit_ok := g\<rparr>) d' x) \<and>
         without_audit (fst (checkout_order (e\<lparr>audit_ok := f\<rparr>) d x)) =
         without_audit (fst (checkout_order (e\<lparr>audit_ok := g\<rparr>) d' x))"
  using assms unfolding without_audit_eq
  by (auto simp: checkout_order_def Let_def split: sum.splits option.splits)

lemma checkout_audit:
  assumes "without_audit d = without_audit d'"
  shows "snd (checkout (e\<lparr>audit_ok := f\<rparr>) d x) = snd (checkout (e\<lparr>audit_ok := g\<rparr>) d' x) \<and>
         without_audit (fst (checkout (e\<lparr>audit_ok := f\<rparr>) d x)) =
         without_audit (fst (checkout (e\<lparr>audit_ok := g\<rparr>) d' x))"
proof -
  let ?q = "\<lambda>y. p_idempotency_key (body y) = Some (ck_idempotency_key x) \<and>
                 p_status (body y) = success"
  let ?pay = "\<lparr>p_cafe_id = ck_cafe_id x, p_order_id = ck_order_id x,
               p_session_id = ck_session_id x, p_amount = ck_amount x,
               p_method = ck_method x, p_status = success,
               p_idempotency_key = Some (ck_idempotency_key x), p_reference = None\<rparr>"
  let ?new = "\<lparr>doc_id = new_id e, created_at = now e, updated_at = None, body = ?pay\<rparr>"
  from assms have pd: "db_payment d' = db_payment d"
    by (simp add: without_audit_eq)
  show ?thesis
  proof (cases "find_one ?q (db_payment d)")
    case (Some y)
    with pd assms show ?thesis by (simp add: checkout_def)
  next
    case None
    show ?thesis
    proof (cases "Payment ?pay")
      case (Inl err)
      with None pd assms show ?thesis by (simp add: checkout_def)
    next
      case (Inr pay)
      then have pay: "pay = ?pay" by (simp add: Payment_def split: if_splits)
      let ?d1 = "d\<lparr>db_payment := db_payment d @ [?new]\<rparr>"
      let ?d1' = "d'\<lparr>db_payment := db_payment d' @ [?new]\<rparr>"
      from assms have r1: "without_audit ?d1 = without_audit ?d1'"
        by (simp add: without_audit_eq)
      obtain d2 u where s: "checkout_session (e\<lparr>audit_ok := f\<rparr>) ?d1 (ck_session_id x) = (d2, u)"
        by (cases "checkout_session (e\<lparr>audit_ok := f\<rparr>) ?d1 (ck_session_id x)")
      obtain d2' u' where
        s': "checkout_session (e\<lparr>audit_ok := g\<rparr>) ?d1' (ck_session_id x) = (d2', u')"
        by (cases "checkout_session (e\<lparr>audit_ok := g\<rparr>) ?d1' (ck_session_id x)")
      from checkout_session_audit [OF r1, where e = e and f = f and g = g and x = "ck_session_id x"] s s'
      have r2: "u = u'" "without_audit d2 = without_audit d2'" by simp_all
      obtain d3 v where t: "checkout_order (e\<lparr>audit_ok := f\<rparr>) d2 (ck_order_id x) = (d3, v)"
        by (cases "checkout_order (e\<lparr>audit_ok := f\<rparr>) d2 (ck_order_id x)")
      obtain d3' v' where
        t': "checkout_order (e\<lparr>audit_ok := g\<rparr>) d2' (ck_order_id x) = (d3', v')"
        by (cases "checkout_order (e\<lparr>audit_ok := g\<rparr>) d2' (ck_order_id x)")
      from checkout_order_audit [OF r2(2), where e = e and f = f and g = g and x = "ck_order_id x"] t t'
      have r3: "v = v'" "without_audit d3 = without_audit d3'" by simp_all
      have c: "checkout (e\<lparr>audit_ok := f\<rparr>) d x =
          (case u of Inl err \<Rightarrow> (d2, Inl err)
           | Inr a \<Rightarrow>
               (case v of Inl err \<Rightarrow> (d3, Inl err)
                | Inr b \<Rightarrow>
                    (audit (e\<lparr>audit_ok := f\<rparr>) ''create'' ''payment'' (Some (new_id e))
                       (dump_payment ?pay) None (Some (ck_cafe_id x)) d3,
                     Inr (new_id e, success))))"
        using None Inr pay s t
        by (simp add: checkout_def create_document_def Let_def split: sum.splits)
      have c': "checkout (e\<lparr>audit_ok := g\<rparr>) d' x =
          (case u' of Inl err \<Rightarrow> (d2', Inl err)
           | Inr a \<Rightarrow>
               (case v' of Inl err \<Rightarrow> (d3', Inl err)
                | Inr b \<Rightarrow>
                    (audit (e\<lparr>audit_ok := g\<rparr>) ''create'' ''payment'' (Some (new_id e))
                       (dump_payment ?pay) None (Some (ck_cafe_id x)) d3',
                     Inr (new_id e, success))))"
        using None Inr pay s' t' pd
        by (simp add: checkout_def create_document_def Let_def split: sum.splits)
      show ?thesis
        unfolding c c' using r2 r3 by (simp split: sum.splits)
    qed
  qed
qed

text \<open>
  C9. A refused audit write changes nothing but the audit log: \<^verbatim>\<open>audit\<close> always returns
  (a store that differs from the one it was given in the audit log at most), and every
  handler that records an audit entry gives the same outcome and the same seven
  collections whatever audit writes the store accepts or refuses.
\<close>

theorem audit_failure_discarded:
  "without_audit (audit (e\<lparr>audit_ok := f\<rparr>) action table record_id pl user_id cafe_id d) =
     without_audit d \<and>
   (snd (register (e\<lparr>audit_ok := f\<rparr>) d rr) = snd (register (e\<lparr>audit_ok := g\<rparr>) d rr) \<and>
    without_audit (fst (register (e\<lparr>audit_ok := f\<rparr>) d rr)) =
      without_audit (fst (register (e\<lparr>audit_ok := g\<rparr>) d rr))) \<and>
   (snd (create_station (e\<lparr>audit_ok := f\<rparr>) d st) =
      snd (create_station (e\<lparr>audit_ok := g\<rparr>) d st) \<and>
    without_audit (fst (create_station (e\<lparr>audit_ok := f\<rparr>) d st)) =
      without_audit (fst (create_station (e\<lparr>audit_ok := g\<rparr>) d st))) \<and>
   (snd (update_station_status (e\<lparr>audit_ok := f\<rparr>) d us) =
      snd (update_station_status (e\<lparr>audit_ok := g\<rparr>) d us) \<and>
    without_audit (fst (update_station_status (e\<lparr>audit_ok := f\<rparr>) d us)) =
      without_audit (fst (update_station_status (e\<lparr>audit_ok := g\<rparr>) d us))) \<and>
   (snd (start_session (e\<lparr>audit_ok := f\<rparr>) d ss) =
      snd (start_session (e\<lparr>audit_ok := g\<rparr>) d ss) \<and>
    without_audit (fst (start_session (e\<lparr>audit_ok := f\<rparr>) d ss)) =
      without_audit (fst (start_session (e\<lparr>audit_ok := g\<rparr>) d ss))) \<and>
   (snd (end_session (e\<lparr>audit_ok := f\<rparr>) d es) =
      snd (end_session (e\<lparr>audit_ok := g\<rparr>) d es) \<and>
    without_audit (fst (end_session (e\<lparr>audit_ok := f\<rparr>) d es)) =
      without_audit (fst (end_session (e\<lparr>audit_ok := g\<rparr>) d es))) \<and>
   (snd (create_menu_item (e\<lparr>audit_ok := f\<rparr>) d cm) =
      snd (create_menu_item (e\<lparr>audit_ok := g\<rparr>) d cm) \<and>
    without_audit (fst (create_menu_item (e\<lparr>audit_ok := f\<rparr>) d cm)) =
      without_audit (fst (create_menu_item (e\<lparr>audit_ok := g\<rparr>) d cm))) \<and>
   (snd (create_order (e\<lparr>audit_ok := f\<rparr>) d co) =
      snd (create_order (e\<lparr>audit_ok := g\<rparr>) d co) \<and>
    without_audit (fst (create_order (e\<lparr>audit_ok := f\<rparr>) d co)) =
      without_audit (fst (create_order (e\<lparr>audit_ok := g\<rparr>) d co))) \<and>
   (snd (update_order_status (e\<lparr>audit_ok := f\<rparr>) d uo) =
      snd (update_order_status (e\<lparr>audit_ok := g\<rparr>) d uo) \<and>
    without_audit (fst (update_order_status (e\<lparr>audit_ok := f\<rparr>) d uo)) =
      without_audit (fst (update_order_status (e\<lparr>audit_ok := g\<rparr>) d uo))) \<and>
   (snd (checkout (e\<lparr>audit_ok := f\<rparr>) d ck) = snd (checkout (e\<lparr>audit_ok := g\<rparr>) d ck) \<and>
    without_audit (fst (checkout (e\<lparr>audit_ok := f\<rparr>) d ck)) =
      without_audit (fst (checkout (e\<lparr>audit_ok := g\<rparr>) d ck))) \<and>
   (snd (update_settings (e\<lparr>audit_ok := f\<rparr>) d s) =
      snd (update_settings (e\<lparr>audit_ok := g\<rparr>) d s) \<and>
    without_audit (fst (update_settings (e\<lparr>audit_ok := f\<rparr>) d s)) =
      without_audit (fst (update_settings (e\<lparr>audit_ok := g\<rparr>) d s)))"
proof -
  have r: "without_audit d = without_audit d" by simp
  show ?thesis
    by (intro conjI audit_without
        register_audit [OF r, THEN conjunct1] register_audit [OF r, THEN conjunct2]
        create_station_audit [OF r, THEN conjunct1] create_station_audit [OF r, THEN conjunct2]
        update_station_status_audit [OF r, THEN conjunct1]
        update_station_status_audit [OF r, THEN conjunct2]
        start_session_audit [OF r, THEN conjunct1] start_session_audit [OF r, THEN conjunct2]
        end_session_audit [OF r, THEN conjunct1] end_session_audit [OF r, THEN conjunct2]
        create_menu_item_audit [OF r, THEN conjunct1]
        create_menu_item_audit [OF r, THEN conjunct2]
        create_order_audit [OF r, THEN conjunct1] create_order_audit [OF r, THEN conjunct2]
        update_order_status_audit [OF r, THEN conjunct1]
        update_order_status_audit [OF r, THEN conjunct2]
        checkout_audit [OF r, THEN conjunct1] checkout_audit [OF r, THEN conjunct2]
        update_settings_audit [OF r, THEN conjunct1]
        update_settings_audit [OF r, THEN conjunct2])
qed

theorem audit_failure_discarded_witness:
  "snd (checkout env1 demo
     \<lparr>ck_cafe_id = ''cafe1'', ck_session_id = Some ''64b000000000000000000b01'',
      ck_order_id = Some ''64b000000000000000000d01'', ck_amount = 100, ck_method = upi,
      ck_idempotency_key = ''key-2''\<rparr>) = Inr (''64b000000000000000000f02'', success) \<and>
   db_auditlog (fst (checkout env1 demo
     \<lparr>ck_cafe_id = ''cafe1'', ck_session_id = Some ''64b000000000000000000b01'',
      ck_order_id = Some ''64b000000000000000000d01'', ck_amount = 100, ck_method = upi,
      ck_idempotency_key = ''key-2''\<rparr>)) = [] \<and>
   length (db_auditlog (fst (checkout (env1\<lparr>audit_ok := \<lambda>a. True\<rparr>) demo
     \<lparr>ck_cafe_id = ''cafe1'', ck_session_id = Some ''64b000000000000000000b01'',
      ck_order_id = Some ''64b000000000000000000d01'', ck_amount = 100, ck_method = upi,
      ck_idempotency_key = ''key-2''\<rparr>))) = 3 \<and>
   without_audit (fst (checkout env1 demo
     \<lparr>ck_cafe_id = ''cafe1'', ck_session_id = Some ''64b000000000000000000b01'',
      ck_order_id = Some ''64b000000000000000000d01'', ck_amount = 100, ck_method = upi,
      ck_idempotency_key = ''key-2''\<rparr>)) =
   without_audit (fst (checkout (env1\<lparr>audit_ok := \<lambda>a. True\<rparr>) demo
     \<lparr>ck_cafe_id = ''cafe1'', ck_session_id = Some ''64b000000000000000000b01'',
      ck_order_id = Some ''64b000000000000000000d01'', ck_amount = 100, ck_method = upi,
      ck_idempotency_key = ''key-2''\<rparr>))"
proof -
  let ?r = "\<lparr>ck_cafe_id = ''cafe1'', ck_session_id = Some ''64b000000000000000000b01'',
      ck_order_id = Some ''64b000000000000000000d01'', ck_amount = 100, ck_method = upi,
      ck_idempotency_key = ''key-2''\<rparr>"
  have e: "env1\<lparr>audit_ok := \<lambda>a. False\<rparr> = env1" by (simp add: env1_def)
  have 1: "snd (checkout (env1\<lparr>audit_ok := \<lambda>a. True\<rparr>) demo ?r) =
      Inr (''64b000000000000000000f02'', success)"
    "length (db_auditlog (fst (checkout (env1\<lparr>audit_ok := \<lambda>a. True\<rparr>) demo ?r))) = 3"
    "db_auditlog (fst (checkout env1 demo ?r)) = []"
    by (simp_all add: checkout_def checkout_session_def checkout_order_def Payment_def
        eval_defs demo_defs)
  from audit_failure_discarded [where e = env1 and f = "\<lambda>a. False" and g = "\<lambda>a. True"
      and d = demo and ck = ?r] e
  have "snd (checkout env1 demo ?r) = snd (checkout (env1\<lparr>audit_ok := \<lambda>a. True\<rparr>) demo ?r) \<and>
    without_audit (fst (checkout env1 demo ?r)) =
      without_audit (fst (checkout (env1\<lparr>audit_ok := \<lambda>a. True\<rparr>) demo ?r))"
    by simp
  with 1 show ?thesis by simp
qed

end
